theory Spec2Isabelle
  imports Main "HOL-Library.AList"
begin

section \<open>Data model\<close>

text \<open>
  The background coordinator of the extension is two JavaScript modules: the state store
  (\<^verbatim>\<open>state.js\<close>) and the listeners (\<^verbatim>\<open>listeners.js\<close>). Both talk to the
  browser through \<^verbatim>\<open>chrome.*\<close> calls and to collaborators (scheduling, suspension,
  preferences) whose code is elsewhere. In this embedding
  \<^item> the module-level variables of \<^verbatim>\<open>state.js\<close>, the durable storage, the timers armed
    by \<^verbatim>\<open>setTimeout\<close> and a trace of every outward call live in one record, \<open>world\<close>,
    which every operation takes and returns;
  \<^item> what the browser and the collaborators answer is a record of oracles, \<open>host\<close>:
    each call that can reject has a field saying whether it does;
  \<^item> a thrown JavaScript error is a value \<open>Error msg\<close>, a fallible step returns
    \<open>error + 'a\<close>, and every \<^verbatim>\<open>try/catch\<close> of the source is a case distinction;
  \<^item> a handler of the listeners runs to completion before the next one starts; the
    watchdog of the state store is split where it awaits, so that calls which overlap can
    be written down. Calls to the logger are left out: they change nothing the program
    reads.
\<close>

datatype error = Error string

fun message :: "error \<Rightarrow> string" where
  "message (Error m) = m"

text \<open>The two flags of \<^verbatim>\<open>STORAGE_KEYS\<close> that the store keeps in \<^verbatim>\<open>chrome.storage.local\<close>.\<close>

datatype storage_key = BULK_RUNNING | FAVICON_REFRESH_RUNNING

record tab =
  tab_id :: "int option"
  tab_windowId :: "int option"
  tab_url :: "string option"
  tab_title :: "string option"

record window =
  win_id :: int
  win_focused :: bool

text \<open>One entry of the scheduling collaborator's snapshot, and an entry of the skipped-tabs answer.\<close>

record skipped_tab =
  sk_tabId :: int
  sk_title :: "string option"
  sk_url :: "string option"
  sk_reason :: string

record snapshot =
  snap_size :: nat
  snap_entries :: "int list"

text \<open>Every outward call the coordinator makes, in the order it makes it.\<close>

datatype effect =
    StorageSet storage_key bool
  | StorageClearFaviconCache
  | RuntimeSendMessage string "string option"
  | TabsSendMessage int string
  | TabsReload "int option"
  | SetTimeout nat nat
  | ClearTimeout nat
  | RemoveTabSuspendTime int
  | ScheduleTab int
  | UnscheduleTab int
  | ScheduleAllTabs
  | DebouncedScheduleAllTabsAlarmBacked
  | SavePrefs
  | SaveWhitelist
  | SuspendTab int bool
  | UnsuspendTab int bool
  | SuspendAllTabsInWindow int bool
  | UnsuspendAllTabsInWindow int
  | SuspendAllTabsAllSpecs bool
  | UnsuspendAllTabsAllSpecs
  | AlarmsClear string
  | AlarmsCreate string nat

text \<open>
  The oracles. A field \<open>\<dots>_error\<close> is \<open>None\<close> when the call resolves and \<open>Some e\<close> when
  it rejects with \<open>e\<close>. \<open>suspendAfter_changed\<close> and \<open>unsavedFormHandling_changed\<close> say
  whether these two preferences differ after \<^verbatim>\<open>Preferences.savePrefs\<close> from what they were
  before. \<open>tabs_query_active\<close> answers with the ids of the tabs found (an
  open tab of a window always has one); \<^verbatim>\<open>chrome.tabs.reload\<close> is asked with whatever the
  descriptor's \<^verbatim>\<open>id\<close> field holds. The message-kind constants of \<^verbatim>\<open>constants.js\<close> are fields too:
  the router compares the request's type with them and nothing else is known of them.
  \<open>timer_overflow\<close> is the delay the host's \<^verbatim>\<open>setTimeout\<close> really waits when it is
  asked for one that does not fit its 32-bit signed delay.
\<close>

record host =
  runtime_id :: string
  windows_getAll :: "error + window list"
  windows_get :: "int \<Rightarrow> error + window option"
  windows_getCurrent :: "error + window"
  tabs_query_active :: "int \<Rightarrow> error + int list"
  tabs_query_suspended :: "error + tab list"
  tabs_query_all :: "error + tab list"
  tabs_query_http :: "error + tab list"
  tabs_get :: "int \<Rightarrow> error + tab option"
  tabs_reload_error :: "int option \<Rightarrow> error option"
  tabs_reload_latency :: "int option \<Rightarrow> nat"
  storage_get_error :: "storage_key \<Rightarrow> error option"
  storage_set_error :: "storage_key \<Rightarrow> bool \<Rightarrow> error option"
  storage_cache_set_error :: "error option"
  runtime_sendMessage_error :: "string \<Rightarrow> error option"
  neverSuspendLastWindow :: bool
  savePrefs_error :: "error option"
  suspendAfter_changed :: bool
  unsavedFormHandling_changed :: bool
  saveWhitelist_error :: "error option"
  sessionAutoSaveFrequency :: nat
  alarms_error :: "error option"
  scheduleTab_error :: "int \<Rightarrow> error option"
  unscheduleTab_error :: "int \<Rightarrow> error option"
  scheduleAllTabs_error :: "error option"
  getSchedulingSnapshot :: "error + snapshot"
  suspendTab_result :: "int \<Rightarrow> error + bool"
  unsuspendTab_result :: "int \<Rightarrow> error + bool"
  suspendAll_error :: "error option"
  unsuspendAll_error :: "error option"
  shouldSkipTabForScheduling :: "tab \<Rightarrow> error + string option"
  MSG_SAVE_SETTINGS :: string
  MSG_SAVE_WHITELIST :: string
  MSG_PREFS_CHANGED :: string
  MSG_SUSPEND_TAB :: string
  MSG_UNSUSPEND_TAB :: string
  MSG_SUSPEND_ALL_TABS_IN_WINDOW :: string
  MSG_UNSUSPEND_ALL_TABS_IN_WINDOW :: string
  MSG_SUSPEND_ALL_TABS_ALL_SPECS :: string
  MSG_UNSUSPEND_ALL_TABS_ALL_SPECS :: string
  MSG_SUSPEND_SELECTED_TABS :: string
  MSG_UNSUSPEND_SELECTED_TABS :: string
  MSG_CLEAR_FAVICON_CACHE :: string
  MSG_REFRESH_ALL_SUSPENDED_FAVICONS :: string
  MSG_GET_EXTENSION_STATS :: string
  MSG_GET_SKIPPED_TABS :: string
  MSG_RESET_BULK_OP_RUNNING :: string
  MSG_FAVICON_REFRESH_PROGRESS :: string
  MSG_FAVICON_REFRESH_DONE :: string
  SUSPENDED_PAGE_PATH :: string
  TS_SESSION_FREQUENT_SAVE :: string
  timer_overflow :: "nat \<Rightarrow> nat"

text \<open>
  \<open>activeTabsByWindow\<close> is the JavaScript \<^verbatim>\<open>Map\<close> as the list of its entries in insertion
  order. \<open>bulkOpTimeoutId\<close> is \<open>None\<close> for \<^verbatim>\<open>null\<close>. Timer handles are the positive
  integers the browser returns: the handle of the \<open>n\<close>-th timer armed is \<open>n\<close>, and
  \<open>timerCount\<close> is the number of timers armed so far. \<open>timers\<close> holds the armed timers
  with the time they are due, \<open>clock\<close> is the simulated time in milliseconds.
\<close>

record world =
  lastFocusedWindowId :: int
  activeTabsByWindow :: "(int \<times> int) list"
  bulkOpTimeoutId :: "nat option"
  storage :: "storage_key \<Rightarrow> bool option"
  timers :: "(nat \<times> nat) list"
  timerCount :: nat
  clock :: nat
  trace :: "effect list"

definition WINDOW_ID_NONE :: int where
  "WINDOW_ID_NONE = - 1"

definition BULK_OP_TIMEOUT_MS :: nat where
  "BULK_OP_TIMEOUT_MS = 10 * 60 * 1000"

text \<open>The state of a freshly started worker: no window tracked, no timer, an empty store.\<close>

definition initial :: world where
  "initial = \<lparr> lastFocusedWindowId = WINDOW_ID_NONE, activeTabsByWindow = [],
     bulkOpTimeoutId = None, storage = (\<lambda>k. None), timers = [], timerCount = 0,
     clock = 0, trace = [] \<rparr>"

definition emit :: "effect \<Rightarrow> world \<Rightarrow> world" where
  "emit e w = w\<lparr> trace := trace w @ [e] \<rparr>"

section \<open>The state store\<close>

subsection \<open>The Map of JavaScript\<close>

definition Map_set :: "int \<Rightarrow> int \<Rightarrow> (int \<times> int) list \<Rightarrow> (int \<times> int) list" where
  "Map_set k v m = AList.update k v m"

definition Map_get :: "int \<Rightarrow> (int \<times> int) list \<Rightarrow> int option" where
  "Map_get k m = map_of m k"

definition Map_has :: "int \<Rightarrow> (int \<times> int) list \<Rightarrow> bool" where
  "Map_has k m = (k \<in> set (map fst m))"

definition Map_delete :: "int \<Rightarrow> (int \<times> int) list \<Rightarrow> (int \<times> int) list" where
  "Map_delete k m = AList.delete k m"

definition Map_keys :: "(int \<times> int) list \<Rightarrow> int list" where
  "Map_keys m = map fst m"

subsection \<open>Window focus state\<close>

definition getLastFocusedWindow :: "world \<Rightarrow> int" where
  "getLastFocusedWindow w = lastFocusedWindowId w"

definition updateLastFocusedWindow :: "int \<Rightarrow> world \<Rightarrow> world" where
  "updateLastFocusedWindow windowId w =
     (if windowId \<noteq> WINDOW_ID_NONE then w\<lparr> lastFocusedWindowId := windowId \<rparr> else w)"

definition setActiveTabForWindow :: "int \<Rightarrow> int \<Rightarrow> world \<Rightarrow> world" where
  "setActiveTabForWindow windowId tabId w =
     w\<lparr> activeTabsByWindow := Map_set windowId tabId (activeTabsByWindow w) \<rparr>"

definition getActiveTabForWindow :: "int \<Rightarrow> world \<Rightarrow> int option" where
  "getActiveTabForWindow windowId w = Map_get windowId (activeTabsByWindow w)"

definition removeWindowTracking :: "int \<Rightarrow> world \<Rightarrow> world" where
  "removeWindowTracking windowId w =
     (let w1 = w\<lparr> activeTabsByWindow := Map_delete windowId (activeTabsByWindow w) \<rparr>
      in if lastFocusedWindowId w1 = windowId
         then w1\<lparr> lastFocusedWindowId := WINDOW_ID_NONE \<rparr>
         else w1)"

text \<open>
  The sweep of \<^verbatim>\<open>cleanupStateReferences\<close>: the loop visits every key of the Map and
  deletes the ones the live set does not have (deleting the current entry of a Map while
  iterating it skips nothing).
\<close>

fun cleanupLoop :: "int list \<Rightarrow> int set \<Rightarrow> (int \<times> int) list \<Rightarrow> (int \<times> int) list" where
  "cleanupLoop [] windowIds m = m"
| "cleanupLoop (windowId # rest) windowIds m =
     (if windowId \<notin> windowIds
      then cleanupLoop rest windowIds (Map_delete windowId m)
      else cleanupLoop rest windowIds m)"

definition cleanupStateReferences :: "host \<Rightarrow> world \<Rightarrow> (error + unit) \<times> world" where
  "cleanupStateReferences h w =
     (case windows_getAll h of
        Inl e \<Rightarrow> (Inr (), w)
      | Inr windows \<Rightarrow>
          (let windowIds = set (map win_id windows);
               w1 = w\<lparr> activeTabsByWindow :=
                        cleanupLoop (Map_keys (activeTabsByWindow w)) windowIds (activeTabsByWindow w) \<rparr>;
               w2 = (if lastFocusedWindowId w1 \<noteq> WINDOW_ID_NONE \<and> lastFocusedWindowId w1 \<notin> windowIds
                     then w1\<lparr> lastFocusedWindowId := WINDOW_ID_NONE \<rparr>
                     else w1)
           in (Inr (), w2)))"

subsection \<open>Host calls of the state store\<close>

definition chrome_storage_local_get :: "host \<Rightarrow> storage_key \<Rightarrow> world \<Rightarrow> error + bool option" where
  "chrome_storage_local_get h k w =
     (case storage_get_error h k of Some e \<Rightarrow> Inl e | None \<Rightarrow> Inr (storage w k))"

definition chrome_storage_local_set :: "host \<Rightarrow> storage_key \<Rightarrow> bool \<Rightarrow> world \<Rightarrow> (error + unit) \<times> world" where
  "chrome_storage_local_set h k v w =
     (let w1 = emit (StorageSet k v) w
      in case storage_set_error h k v of
           Some e \<Rightarrow> (Inl e, w1)
         | None \<Rightarrow> (Inr (), w1\<lparr> storage := (storage w1)(k \<mapsto> v) \<rparr>))"

definition chrome_runtime_sendMessage :: "host \<Rightarrow> string \<Rightarrow> string option \<Rightarrow> world \<Rightarrow> (error + unit) \<times> world" where
  "chrome_runtime_sendMessage h ty reason w =
     (let w1 = emit (RuntimeSendMessage ty reason) w
      in case runtime_sendMessage_error h ty of
           Some e \<Rightarrow> (Inl e, w1)
         | None \<Rightarrow> (Inr (), w1))"

text \<open>
  Timers. \<^verbatim>\<open>setTimeout\<close> takes its delay as a 32-bit signed integer: a delay below
  \<open>2^31\<close> milliseconds is waited as it is, for a larger one the host says what is waited
  (a browser fires the timer of \<open>2^31\<close> ms at once).
\<close>

definition timeoutOf :: "host \<Rightarrow> nat \<Rightarrow> nat" where
  "timeoutOf h delay = (if delay < 2147483648 then delay else timer_overflow h delay)"

definition clearTimeout :: "nat \<Rightarrow> world \<Rightarrow> world" where
  "clearTimeout t w = (emit (ClearTimeout t) w)\<lparr> timers := filter (\<lambda>(i, due). i \<noteq> t) (timers w) \<rparr>"

definition setTimeout :: "host \<Rightarrow> nat \<Rightarrow> world \<Rightarrow> nat \<times> world" where
  "setTimeout h delay w =
     (let t = Suc (timerCount w)
      in (t, (emit (SetTimeout t delay) w)\<lparr> timers := timers w @ [(t, clock w + timeoutOf h delay)],
                                             timerCount := t \<rparr>))"

subsection \<open>Durable flags and the watchdog\<close>

definition getBulkOpRunning :: "host \<Rightarrow> world \<Rightarrow> error + bool" where
  "getBulkOpRunning h w =
     (case chrome_storage_local_get h BULK_RUNNING w of
        Inl e \<Rightarrow> Inr False
      | Inr obj \<Rightarrow> Inr (obj = Some True))"

definition setBulkOpRunning :: "host \<Rightarrow> bool \<Rightarrow> world \<Rightarrow> (error + unit) \<times> world" where
  "setBulkOpRunning h v w =
     (let w1 = (case bulkOpTimeoutId w of
                  Some t \<Rightarrow> if t \<noteq> 0 then (clearTimeout t w)\<lparr> bulkOpTimeoutId := None \<rparr> else w
                | None \<Rightarrow> w)
      in case chrome_storage_local_set h BULK_RUNNING v w1 of
           (Inl e, w2) \<Rightarrow> (Inr (), w2)
         | (Inr u, w2) \<Rightarrow>
             (if v
              then (let (t, w3) = setTimeout h BULK_OP_TIMEOUT_MS w2
                    in (Inr (), w3\<lparr> bulkOpTimeoutId := Some t \<rparr>))
              else (Inr (), w2)))"

text \<open>The callback the watchdog timer runs when it fires.\<close>

definition bulkOpTimeoutCallback :: "host \<Rightarrow> world \<Rightarrow> (error + unit) \<times> world" where
  "bulkOpTimeoutCallback h w =
     (case chrome_storage_local_set h BULK_RUNNING False w of
        (Inl e, w1) \<Rightarrow> (Inr (), w1)
      | (Inr u, w1) \<Rightarrow>
          (let w2 = w1\<lparr> bulkOpTimeoutId := None \<rparr>
           in case chrome_runtime_sendMessage h ''MSG_resetBulkOpRunning'' (Some ''timeout'') w2 of
                (Inl msgError, w3) \<Rightarrow> (Inr (), w3)
              | (Inr u', w3) \<Rightarrow> (Inr (), w3)))"

definition getFaviconRefreshRunning :: "host \<Rightarrow> world \<Rightarrow> error + bool" where
  "getFaviconRefreshRunning h w =
     (case chrome_storage_local_get h FAVICON_REFRESH_RUNNING w of
        Inl e \<Rightarrow> Inr False
      | Inr obj \<Rightarrow> Inr (obj = Some True))"

definition setFaviconRefreshRunning :: "host \<Rightarrow> bool \<Rightarrow> world \<Rightarrow> (error + unit) \<times> world" where
  "setFaviconRefreshRunning h v w =
     (case chrome_storage_local_set h FAVICON_REFRESH_RUNNING v w of
        (Inl e, w1) \<Rightarrow> (Inr (), w1)
      | (Inr u, w1) \<Rightarrow> (Inr (), w1))"

text \<open>
  The two places where the watchdog gives up control. A call of \<^verbatim>\<open>setBulkOpRunning\<close>
  awaits \<^verbatim>\<open>chrome.storage.local.set\<close> after it has cleared the old timer and before it
  arms the new one, and the callback of the timer awaits its storage write before it
  clears \<open>bulkOpTimeoutId\<close> and broadcasts. \<open>\<dots>_start\<close> is the code up to the await (the
  write is issued), \<open>\<dots>_resume\<close> the code after it (the write has settled); anything else
  can run in between. \<open>setBulkOpRunning\<close> and \<open>bulkOpTimeoutCallback\<close> above are the runs
  in which nothing does.
\<close>

definition setBulkOpRunning_start :: "bool \<Rightarrow> world \<Rightarrow> world" where
  "setBulkOpRunning_start v w =
     (let w1 = (case bulkOpTimeoutId w of
                  Some t \<Rightarrow> if t \<noteq> 0 then (clearTimeout t w)\<lparr> bulkOpTimeoutId := None \<rparr> else w
                | None \<Rightarrow> w)
      in emit (StorageSet BULK_RUNNING v) w1)"

definition setBulkOpRunning_resume :: "host \<Rightarrow> bool \<Rightarrow> world \<Rightarrow> (error + unit) \<times> world" where
  "setBulkOpRunning_resume h v w =
     (case storage_set_error h BULK_RUNNING v of
        Some e \<Rightarrow> (Inr (), w)
      | None \<Rightarrow>
          (let w2 = w\<lparr> storage := (storage w)(BULK_RUNNING \<mapsto> v) \<rparr>
           in if v
              then (let (t, w3) = setTimeout h BULK_OP_TIMEOUT_MS w2
                    in (Inr (), w3\<lparr> bulkOpTimeoutId := Some t \<rparr>))
              else (Inr (), w2)))"

definition bulkOpTimeoutCallback_start :: "world \<Rightarrow> world" where
  "bulkOpTimeoutCallback_start w = emit (StorageSet BULK_RUNNING False) w"

definition bulkOpTimeoutCallback_resume :: "host \<Rightarrow> world \<Rightarrow> (error + unit) \<times> world" where
  "bulkOpTimeoutCallback_resume h w =
     (case storage_set_error h BULK_RUNNING False of
        Some e \<Rightarrow> (Inr (), w)
      | None \<Rightarrow>
          (let w1 = w\<lparr> storage := (storage w)(BULK_RUNNING \<mapsto> False) \<rparr>;
               w2 = w1\<lparr> bulkOpTimeoutId := None \<rparr>
           in case chrome_runtime_sendMessage h ''MSG_resetBulkOpRunning'' (Some ''timeout'') w2 of
                (Inl msgError, w3) \<Rightarrow> (Inr (), w3)
              | (Inr u', w3) \<Rightarrow> (Inr (), w3)))"

text \<open>
  Time passing: the clock moves on by \<open>d\<close> milliseconds, every timer that is due by then
  (\<open>dueTimers\<close>) leaves the armed set and its callback starts. Each callback started goes
  on with \<open>bulkOpTimeoutCallback_resume\<close> when its storage write has settled.
\<close>

definition dueTimers :: "nat \<Rightarrow> world \<Rightarrow> (nat \<times> nat) list" where
  "dueTimers d w = filter (\<lambda>(t, due). due \<le> clock w + d) (timers w)"

definition elapse :: "nat \<Rightarrow> world \<Rightarrow> world" where
  "elapse d w =
     fold (\<lambda>timer. bulkOpTimeoutCallback_start) (dueTimers d w)
       (w\<lparr> clock := clock w + d,
          timers := filter (\<lambda>(t, due). \<not> due \<le> clock w + d) (timers w) \<rparr>)"

text \<open>
  \<open>resetBroadcasts\<close> counts the attempts to send the reset notification. \<open>watchdogInv\<close>
  says that no timer is armed but the one \<open>bulkOpTimeoutId\<close> names: it holds at the start,
  and calls that do not overlap keep it.
\<close>

definition resetBroadcasts :: "world \<Rightarrow> nat" where
  "resetBroadcasts w =
     length (filter (\<lambda>e. e = RuntimeSendMessage ''MSG_resetBulkOpRunning'' (Some ''timeout'')) (trace w))"

definition watchdogInv :: "world \<Rightarrow> bool" where
  "watchdogInv w =
     (bulkOpTimeoutId w \<noteq> Some 0
      \<and> (timers w = [] \<or> (\<exists>t due. timers w = [(t, due)] \<and> bulkOpTimeoutId w = Some t)))"

section \<open>The batched reloader\<close>

text \<open>
  \<^verbatim>\<open>reloadSuspendedTabsBatched(tabs, batchSize, perTabDelayMs, batchDelayMs)\<close>. The sizes
  and delays are natural numbers (small enough for JavaScript to compute the stagger
  exactly). What the function does is written down as a list of steps. \<open>Batch ids\<close> is one
  batch: the promises made for the descriptors with these ids, in the order of the array,
  and awaited together by \<^verbatim>\<open>Promise.allSettled\<close>; every member attempts its reload once,
  at the time its stagger gives. \<open>Delay ms\<close> is the \<^verbatim>\<open>setTimeout\<close> of \<open>ms\<close> between two
  batches. \<open>durationMs\<close> is the simulated time from \<^verbatim>\<open>startTime\<close>: a timer takes what
  \<open>timeoutOf\<close> gives, a member of a batch settles after its stagger and the latency of its
  reload, the batch settles with its slowest member.
\<close>

datatype step = Batch "int option list" | Delay nat

record job =
  processed :: nat
  errors :: nat
  durationMs :: nat
  steps :: "step list"

definition validTab :: "tab \<Rightarrow> bool" where
  "validTab t = (case tab_id t of None \<Rightarrow> False | Some n \<Rightarrow> n \<noteq> 0)"

definition slice :: "'a list \<Rightarrow> nat \<Rightarrow> nat \<Rightarrow> 'a list" where
  "slice xs a b = take (b - a) (drop a xs)"

definition stagger :: "host \<Rightarrow> nat \<Rightarrow> nat \<Rightarrow> nat \<Rightarrow> nat" where
  "stagger h perTabDelayMs index n =
     (if index > 0 \<and> perTabDelayMs > 0 then timeoutOf h (perTabDelayMs * index div n) else 0)"

text \<open>
  One member of a batch, the \<^verbatim>\<open>try/catch\<close> around the stagger and the reload: a reload
  that resolves adds one to \<open>processed\<close>, a failed one adds one to \<open>errors\<close> and nothing
  else happens.
\<close>

definition runMember :: "host \<Rightarrow> tab \<Rightarrow> job \<Rightarrow> job" where
  "runMember h t st =
     (case tabs_reload_error h (tab_id t) of
        None \<Rightarrow> st\<lparr> processed := processed st + 1 \<rparr>
      | Some e \<Rightarrow> st\<lparr> errors := errors st + 1 \<rparr>)"

text \<open>The time a member takes, and the time until \<^verbatim>\<open>Promise.allSettled\<close> resolves.\<close>

definition memberTime :: "host \<Rightarrow> nat \<Rightarrow> nat \<Rightarrow> nat \<times> tab \<Rightarrow> nat" where
  "memberTime h perTabDelayMs n it =
     stagger h perTabDelayMs (fst it) n + tabs_reload_latency h (tab_id (snd it))"

definition batchTime :: "host \<Rightarrow> nat \<Rightarrow> tab list \<Rightarrow> nat" where
  "batchTime h perTabDelayMs batch =
     fold max (map (memberTime h perTabDelayMs (length batch)) (enumerate 0 batch)) 0"

definition runBatch :: "host \<Rightarrow> nat \<Rightarrow> tab list \<Rightarrow> job \<Rightarrow> job" where
  "runBatch h perTabDelayMs batch st =
     (let st1 = fold (runMember h) batch st
      in st1\<lparr> durationMs := durationMs st1 + batchTime h perTabDelayMs batch,
              steps := steps st1 @ [Batch (map tab_id batch)] \<rparr>)"

definition sleep :: "host \<Rightarrow> nat \<Rightarrow> job \<Rightarrow> job" where
  "sleep h ms st = st\<lparr> durationMs := durationMs st + timeoutOf h ms, steps := steps st @ [Delay ms] \<rparr>"

text \<open>
  The \<^verbatim>\<open>for (let i = 0; i < validTabs.length; i += batchSize)\<close> loop. Nothing in the
  source makes \<open>i\<close> grow when \<open>batchSize\<close> is 0, so the loop is a partial function:
  \<open>None\<close> is the run that never returns.
\<close>

partial_function (option) reloadLoop ::
  "host \<Rightarrow> tab list \<Rightarrow> nat \<Rightarrow> nat \<Rightarrow> nat \<Rightarrow> nat \<Rightarrow> job \<Rightarrow> job option" where
  "reloadLoop h validTabs batchSize perTabDelayMs batchDelayMs i st =
     (if i < length validTabs
      then (let batch = slice validTabs i (i + batchSize);
                st1 = runBatch h perTabDelayMs batch st;
                st2 = (if i + batchSize < length validTabs \<and> batchDelayMs > 0
                       then sleep h batchDelayMs st1 else st1)
            in reloadLoop h validTabs batchSize perTabDelayMs batchDelayMs (i + batchSize) st2)
      else Some st)"

definition reloadSuspendedTabsBatched :: "host \<Rightarrow> tab list \<Rightarrow> nat \<Rightarrow> nat \<Rightarrow> nat \<Rightarrow> job option" where
  "reloadSuspendedTabsBatched h tabs batchSize perTabDelayMs batchDelayMs =
     (let validTabs = filter validTab tabs
      in reloadLoop h validTabs batchSize perTabDelayMs batchDelayMs 0
           \<lparr> processed = 0, errors = 0, durationMs = 0, steps = [] \<rparr>)"

text \<open>
  The description of the algorithm in words, to compare the loop with: the consecutive
  chunks of \<open>n\<close> elements of a list, and the chunks run one after the other with a wait
  after each chunk but the last.
\<close>

function chunks :: "nat \<Rightarrow> 'a list \<Rightarrow> 'a list list" where
  "chunks n xs = (if n = 0 \<or> xs = [] then [] else take n xs # chunks n (drop n xs))"
  by pat_completeness auto
termination
  by (relation "measure (\<lambda>(n, xs). length xs)") auto

fun runChunks :: "host \<Rightarrow> nat \<Rightarrow> nat \<Rightarrow> tab list list \<Rightarrow> job \<Rightarrow> job" where
  "runChunks h perTabDelayMs batchDelayMs [] st = st"
| "runChunks h perTabDelayMs batchDelayMs (c # cs) st =
     (let st1 = runBatch h perTabDelayMs c st;
          st2 = (if cs \<noteq> [] \<and> batchDelayMs > 0 then sleep h batchDelayMs st1 else st1)
      in runChunks h perTabDelayMs batchDelayMs cs st2)"

declare chunks.simps [simp del]

text \<open>
  The steps the description asks for: one batch per chunk, and the wait after it when more
  chunks remain. \<open>reloaded h t\<close>: the reload of descriptor \<open>t\<close> resolves.
\<close>

fun batchSteps :: "nat \<Rightarrow> tab list list \<Rightarrow> step list" where
  "batchSteps d [] = []"
| "batchSteps d (c # cs) =
     Batch (map tab_id c) # (if cs \<noteq> [] \<and> d > 0 then [Delay d] else []) @ batchSteps d cs"

definition reloaded :: "host \<Rightarrow> tab \<Rightarrow> bool" where
  "reloaded h t = (tabs_reload_error h (tab_id t) = None)"

section \<open>The message router\<close>

text \<open>
  A response is one of the object shapes the router sends: \<open>ErrorResp m\<close> is
  \<^verbatim>\<open>{error: m}\<close>, \<open>SuccessResp b\<close> is \<^verbatim>\<open>{success: b}\<close>, \<open>RunningResp b\<close> is
  \<^verbatim>\<open>{running: b}\<close>, \<open>FailureResp m\<close> is \<^verbatim>\<open>{success: false, error: m}\<close>,
  \<open>CountsResp\<close> is \<^verbatim>\<open>{success: true, counts: {success, skipped, errors, total}}\<close>,
  \<open>RefreshResp c t\<close> is \<^verbatim>\<open>{success: true, count: c, total: t}\<close>, \<open>StatsResp\<close> is
  \<^verbatim>\<open>{success: true, total, suspended, scheduled, skipped}\<close> and \<open>SkippedTabsResp\<close> is
  \<^verbatim>\<open>{success: true, skippedTabs}\<close>.
\<close>

datatype response =
    ErrorResp string
  | SuccessResp bool
  | RunningResp bool
  | FailureResp string
  | CountsResp nat nat nat nat
  | RefreshResp nat nat
  | StatsResp nat nat nat nat
  | SkippedTabsResp "skipped_tab list"

record sender =
  sender_id :: "string option"
  sender_url :: "string option"
  sender_tab :: "tab option"

text \<open>
  The fields of a request the router reads. \<open>req_type\<close> is \<open>None\<close> when the field is
  missing; \<open>req_settings\<close> says whether \<^verbatim>\<open>settings\<close> is a non-null object and
  \<open>req_newWhitelist\<close> whether \<^verbatim>\<open>newWhitelist\<close> is an array; \<open>req_tabIds\<close> is \<open>None\<close>
  when \<^verbatim>\<open>tabIds\<close> is not an array, and an element of it is \<open>None\<close> when it is not a number.
\<close>

record request =
  req_type :: "string option"
  req_settings :: bool
  req_newWhitelist :: bool
  req_tabId :: "int option"
  req_isManual :: bool
  req_shouldFocus :: bool
  req_windowId :: "int option"
  req_tabIds :: "int option list option"

definition truthy :: "int option \<Rightarrow> bool" where
  "truthy v = (case v of None \<Rightarrow> False | Some n \<Rightarrow> n \<noteq> 0)"

definition truthyS :: "string option \<Rightarrow> bool" where
  "truthyS v = (case v of None \<Rightarrow> False | Some s \<Rightarrow> s \<noteq> [])"

definition startsWith :: "string \<Rightarrow> string \<Rightarrow> bool" where
  "startsWith s p = (take (length p) s = p)"

definition getURL :: "host \<Rightarrow> string \<Rightarrow> string" where
  "getURL h path = ''chrome-extension://'' @ runtime_id h @ ''/'' @ path"

definition validateMessageSender :: "host \<Rightarrow> sender \<Rightarrow> bool \<Rightarrow> bool" where
  "validateMessageSender h sender requiresExtensionOrigin =
     (if requiresExtensionOrigin
      then sender_id sender = Some (runtime_id h)
           \<and> (case sender_url sender of
                 None \<Rightarrow> False
               | Some u \<Rightarrow> u \<noteq> [] \<and> startsWith u (''chrome-extension://'' @ runtime_id h @ ''/''))
      else (case sender_tab sender of None \<Rightarrow> False | Some t \<Rightarrow> tab_id t \<noteq> None))"

text \<open>A call to a collaborator: the call is made, and it resolves or rejects.\<close>

definition attempt :: "effect \<Rightarrow> error option \<Rightarrow> world \<Rightarrow> (error + unit) \<times> world" where
  "attempt e r w = (case r of Some err \<Rightarrow> (Inl err, emit e w) | None \<Rightarrow> (Inr (), emit e w))"

text \<open>
  \<^verbatim>\<open>handleAsyncMessage\<close>: the result of the handler is sent; a rejection is sent as
  \<^verbatim>\<open>{error: error.message || "Unknown error"}\<close>.
\<close>

definition handleAsyncMessage :: "(error + response) \<times> world \<Rightarrow> response list \<times> world" where
  "handleAsyncMessage rw =
     (case rw of
        (Inr result, w) \<Rightarrow> ([result], w)
      | (Inl e, w) \<Rightarrow> ([ErrorResp (if message e = [] then ''Unknown error'' else message e)], w))"

definition broadcastFaviconRefreshProgress :: "host \<Rightarrow> bool \<Rightarrow> world \<Rightarrow> world" where
  "broadcastFaviconRefreshProgress h isRunning w =
     emit (RuntimeSendMessage
             (if isRunning then MSG_FAVICON_REFRESH_PROGRESS h else MSG_FAVICON_REFRESH_DONE h) None) w"

fun notifyLoop :: "host \<Rightarrow> tab list \<Rightarrow> world \<Rightarrow> world" where
  "notifyLoop h [] w = w"
| "notifyLoop h (t # ts) w =
     (case (tab_id t, tab_url t) of
        (Some n, Some u) \<Rightarrow>
          (if n \<noteq> 0 \<and> u \<noteq> [] \<and> \<not> startsWith u ''chrome://'' \<and> \<not> startsWith u ''about:''
           then notifyLoop h ts (emit (TabsSendMessage n (MSG_PREFS_CHANGED h)) w)
           else notifyLoop h ts w)
      | _ \<Rightarrow> notifyLoop h ts w)"

definition notifyAllTabsPrefsChanged :: "host \<Rightarrow> world \<Rightarrow> world" where
  "notifyAllTabsPrefsChanged h w =
     (case tabs_query_http h of Inl e \<Rightarrow> w | Inr tabs \<Rightarrow> notifyLoop h tabs w)"

text \<open>
  \<^verbatim>\<open>rescheduleSessionAutoSave\<close> catches whatever fails in it. Of its calls the two that
  change the alarm are traced; the reads (the stored preferences, the list of alarms) are not.
\<close>

definition rescheduleSessionAutoSave :: "host \<Rightarrow> world \<Rightarrow> world" where
  "rescheduleSessionAutoSave h w =
     (case attempt (AlarmsClear (TS_SESSION_FREQUENT_SAVE h)) (alarms_error h) w of
        (Inl e, w1) \<Rightarrow> w1
      | (Inr u, w1) \<Rightarrow>
          (let saveFrequency = (if sessionAutoSaveFrequency h = 0 then 5 else sessionAutoSaveFrequency h)
           in emit (AlarmsCreate (TS_SESSION_FREQUENT_SAVE h) saveFrequency) w1))"

subsection \<open>The bodies of the asynchronous handlers\<close>

definition saveSettingsBody :: "host \<Rightarrow> request \<Rightarrow> world \<Rightarrow> (error + response) \<times> world" where
  "saveSettingsBody h request w =
     (if \<not> req_settings request
      then (Inr (ErrorResp ''Invalid settings: Expected an object''), w)
      else (case attempt SavePrefs (savePrefs_error h) w of
              (Inl e, w1) \<Rightarrow> (Inl e, w1)
            | (Inr u, w1) \<Rightarrow>
                (let w2 = (if suspendAfter_changed h \<or> unsavedFormHandling_changed h
                           then emit DebouncedScheduleAllTabsAlarmBacked w1 else w1);
                     w3 = (if unsavedFormHandling_changed h
                           then notifyAllTabsPrefsChanged h w2 else w2)
                 in (Inr (SuccessResp True), w3))))"

definition saveWhitelistBody :: "host \<Rightarrow> request \<Rightarrow> world \<Rightarrow> (error + response) \<times> world" where
  "saveWhitelistBody h request w =
     (if \<not> req_newWhitelist request
      then (Inr (ErrorResp ''Invalid whitelist: Expected an array''), w)
      else (case attempt SaveWhitelist (saveWhitelist_error h) w of
              (Inl e, w1) \<Rightarrow> (Inl e, w1)
            | (Inr u, w1) \<Rightarrow>
                (Inr (SuccessResp True), emit DebouncedScheduleAllTabsAlarmBacked w1)))"

definition prefsChangedBody :: "host \<Rightarrow> world \<Rightarrow> (error + response) \<times> world" where
  "prefsChangedBody h w =
     (case attempt ScheduleAllTabs (scheduleAllTabs_error h) w of
        (Inl e, w1) \<Rightarrow> (Inl e, w1)
      | (Inr u, w1) \<Rightarrow> (Inr (SuccessResp True), rescheduleSessionAutoSave h w1))"

definition suspendTabBody :: "host \<Rightarrow> int \<Rightarrow> bool \<Rightarrow> world \<Rightarrow> (error + response) \<times> world" where
  "suspendTabBody h tabIdToUse isManual w =
     (case suspendTab_result h tabIdToUse of
        Inl e \<Rightarrow> (Inl e, emit (SuspendTab tabIdToUse isManual) w)
      | Inr result \<Rightarrow> (Inr (SuccessResp result), emit (SuspendTab tabIdToUse isManual) w))"

definition unsuspendTabBody :: "host \<Rightarrow> int \<Rightarrow> bool \<Rightarrow> world \<Rightarrow> (error + response) \<times> world" where
  "unsuspendTabBody h tabId shouldFocus w =
     (case unsuspendTab_result h tabId of
        Inl e \<Rightarrow> (Inl e, emit (UnsuspendTab tabId shouldFocus) w)
      | Inr result \<Rightarrow> (Inr (SuccessResp result), emit (UnsuspendTab tabId shouldFocus) w))"

text \<open>
  The window a bulk request is about: the payload's, else the sender tab's, else the
  current window of the browser.
\<close>

definition resolveWindowId :: "host \<Rightarrow> request \<Rightarrow> sender \<Rightarrow> error + int" where
  "resolveWindowId h request sender =
     (let fromCurrent = (case windows_getCurrent h of
                           Inl e \<Rightarrow> Inl e
                         | Inr currentWindow \<Rightarrow> Inr (win_id currentWindow));
          fromSender = (case sender_tab sender of
                          None \<Rightarrow> fromCurrent
                        | Some t \<Rightarrow> (case tab_windowId t of
                                       None \<Rightarrow> fromCurrent
                                     | Some n \<Rightarrow> if n \<noteq> 0 then Inr n else fromCurrent))
      in case req_windowId request of
           None \<Rightarrow> fromSender
         | Some n \<Rightarrow> if n \<noteq> 0 then Inr n else fromSender)"

definition suspendAllInWindowBody :: "host \<Rightarrow> request \<Rightarrow> sender \<Rightarrow> world \<Rightarrow> (error + response) \<times> world" where
  "suspendAllInWindowBody h request sender w =
     (case resolveWindowId h request sender of
        Inl e \<Rightarrow> (Inl e, w)
      | Inr windowId \<Rightarrow>
          (case attempt (SuspendAllTabsInWindow windowId True) (suspendAll_error h) w of
             (Inl e, w1) \<Rightarrow> (Inl e, w1)
           | (Inr u, w1) \<Rightarrow> (Inr (SuccessResp True), w1)))"

definition unsuspendAllInWindowBody :: "host \<Rightarrow> request \<Rightarrow> sender \<Rightarrow> world \<Rightarrow> (error + response) \<times> world" where
  "unsuspendAllInWindowBody h request sender w =
     (case resolveWindowId h request sender of
        Inl e \<Rightarrow> (Inl e, w)
      | Inr windowId \<Rightarrow>
          (case attempt (UnsuspendAllTabsInWindow windowId) (unsuspendAll_error h) w of
             (Inl e, w1) \<Rightarrow> (Inl e, w1)
           | (Inr u, w1) \<Rightarrow> (Inr (SuccessResp True), w1)))"

definition suspendAllSpecsBody :: "host \<Rightarrow> world \<Rightarrow> (error + response) \<times> world" where
  "suspendAllSpecsBody h w =
     (case attempt (SuspendAllTabsAllSpecs True) (suspendAll_error h) w of
        (Inl e, w1) \<Rightarrow> (Inl e, w1)
      | (Inr u, w1) \<Rightarrow> (Inr (SuccessResp True), w1))"

definition unsuspendAllSpecsBody :: "host \<Rightarrow> world \<Rightarrow> (error + response) \<times> world" where
  "unsuspendAllSpecsBody h w =
     (case attempt UnsuspendAllTabsAllSpecs (unsuspendAll_error h) w of
        (Inl e, w1) \<Rightarrow> (Inl e, w1)
      | (Inr u, w1) \<Rightarrow> (Inr (SuccessResp True), w1))"

text \<open>Iterating over the selected ids: each call is caught on its own.\<close>

fun suspendSelectedLoop :: "host \<Rightarrow> int list \<Rightarrow> nat \<times> nat \<times> nat \<Rightarrow> world \<Rightarrow> (nat \<times> nat \<times> nat) \<times> world" where
  "suspendSelectedLoop h [] acc w = (acc, w)"
| "suspendSelectedLoop h (i # ids) (success, skipped, errs) w =
     suspendSelectedLoop h ids
       (case suspendTab_result h i of
          Inr ok \<Rightarrow> (if ok then (success + 1, skipped, errs) else (success, skipped + 1, errs))
        | Inl e \<Rightarrow> (success, skipped, errs + 1))
       (emit (SuspendTab i True) w)"

fun unsuspendSelectedLoop :: "host \<Rightarrow> int list \<Rightarrow> nat \<times> nat \<times> nat \<Rightarrow> world \<Rightarrow> (nat \<times> nat \<times> nat) \<times> world" where
  "unsuspendSelectedLoop h [] acc w = (acc, w)"
| "unsuspendSelectedLoop h (i # ids) (success, skipped, errs) w =
     unsuspendSelectedLoop h ids
       (case unsuspendTab_result h i of
          Inr ok \<Rightarrow> (if ok then (success + 1, skipped, errs) else (success, skipped + 1, errs))
        | Inl e \<Rightarrow> (success, skipped, errs + 1))
       (emit (UnsuspendTab i False) w)"

fun numbersOf :: "int option list \<Rightarrow> int list" where
  "numbersOf [] = []"
| "numbersOf (None # vs) = numbersOf vs"
| "numbersOf (Some n # vs) = n # numbersOf vs"

definition suspendSelectedBody :: "host \<Rightarrow> int option list \<Rightarrow> world \<Rightarrow> (error + response) \<times> world" where
  "suspendSelectedBody h tabIds w =
     (let ids = numbersOf tabIds
      in case suspendSelectedLoop h ids (0, 0, 0) w of
           ((success, skipped, errs), w1) \<Rightarrow>
             (Inr (CountsResp success skipped errs (length ids)), w1))"

definition unsuspendSelectedBody :: "host \<Rightarrow> int option list \<Rightarrow> world \<Rightarrow> (error + response) \<times> world" where
  "unsuspendSelectedBody h tabIds w =
     (let ids = numbersOf tabIds
      in case unsuspendSelectedLoop h ids (0, 0, 0) w of
           ((success, skipped, errs), w1) \<Rightarrow>
             (Inr (CountsResp success skipped errs (length ids)), w1))"

subsection \<open>The handlers of the tools page\<close>

definition clearFaviconCacheBody :: "host \<Rightarrow> world \<Rightarrow> (error + response) \<times> world" where
  "clearFaviconCacheBody h w =
     (case attempt StorageClearFaviconCache (storage_cache_set_error h) w of
        (Inl e, w1) \<Rightarrow> (Inr (ErrorResp (message e)), w1)
      | (Inr u, w1) \<Rightarrow> (Inr (SuccessResp True), w1))"

text \<open>
  The body of the favicon refresh. The \<^verbatim>\<open>finally\<close> block runs on both ways out of the
  \<^verbatim>\<open>try\<close>; the reload runs with the default sizes 3, 1000 and 1200.
\<close>

definition refreshFinally :: "host \<Rightarrow> world \<Rightarrow> world" where
  "refreshFinally h w =
     broadcastFaviconRefreshProgress h False (snd (setFaviconRefreshRunning h False w))"

text \<open>
  The reloads of a job in the trace, batch by batch and within a batch in the order of
  the array: with the stagger of this call, 1000 ms over at most 3 members, that is the
  order in which they are issued.
\<close>

definition recordReloads :: "job \<Rightarrow> world \<Rightarrow> world" where
  "recordReloads j w =
     w\<lparr> trace := trace w
          @ concat (map (\<lambda>s. case s of Batch ids \<Rightarrow> map TabsReload ids | Delay ms \<Rightarrow> []) (steps j)) \<rparr>"

definition refreshAllSuspendedFaviconsBody :: "host \<Rightarrow> world \<Rightarrow> ((error + response) \<times> world) option" where
  "refreshAllSuspendedFaviconsBody h w =
     (case getFaviconRefreshRunning h w of
        Inl e \<Rightarrow> Some (Inl e, w)
      | Inr running \<Rightarrow>
          (if running
           then Some (Inr (FailureResp ''Favicon refresh already running''), w)
           else (let w1 = snd (setFaviconRefreshRunning h True w);
                     w2 = broadcastFaviconRefreshProgress h True w1
                 in case tabs_query_suspended h of
                      Inl e \<Rightarrow> Some (Inl e, refreshFinally h w2)
                    | Inr tabs \<Rightarrow>
                        (case reloadSuspendedTabsBatched h tabs 3 1000 1200 of
                           None \<Rightarrow> None
                         | Some j \<Rightarrow>
                             Some (Inr (RefreshResp (processed j) (length tabs)),
                                   refreshFinally h (recordReloads j w2))))))"

definition isSuspendedUrl :: "host \<Rightarrow> tab \<Rightarrow> bool" where
  "isSuspendedUrl h t =
     (case tab_url t of
        None \<Rightarrow> False
      | Some u \<Rightarrow> u \<noteq> [] \<and> startsWith u (getURL h (SUSPENDED_PAGE_PATH h)))"

definition isScheduled :: "snapshot \<Rightarrow> tab \<Rightarrow> bool" where
  "isScheduled scheduledInfo t =
     (case tab_id t of None \<Rightarrow> False | Some n \<Rightarrow> n \<in> set (snap_entries scheduledInfo))"

fun countSkipped :: "host \<Rightarrow> snapshot \<Rightarrow> tab list \<Rightarrow> nat \<Rightarrow> error + nat" where
  "countSkipped h scheduledInfo [] skippedCount = Inr skippedCount"
| "countSkipped h scheduledInfo (t # ts) skippedCount =
     (if isSuspendedUrl h t then countSkipped h scheduledInfo ts skippedCount
      else if isScheduled scheduledInfo t then countSkipped h scheduledInfo ts skippedCount
      else (case shouldSkipTabForScheduling h t of
              Inl e \<Rightarrow> Inl e
            | Inr skipReason \<Rightarrow>
                countSkipped h scheduledInfo ts
                  (if truthyS skipReason then skippedCount + 1 else skippedCount)))"

definition getExtensionStatsBody :: "host \<Rightarrow> world \<Rightarrow> (error + response) \<times> world" where
  "getExtensionStatsBody h w =
     (case tabs_query_all h of
        Inl e \<Rightarrow> (Inl e, w)
      | Inr allTabs \<Rightarrow>
          (case getSchedulingSnapshot h of
             Inl e \<Rightarrow> (Inl e, w)
           | Inr scheduledInfo \<Rightarrow>
               (case countSkipped h scheduledInfo allTabs 0 of
                  Inl e \<Rightarrow> (Inl e, w)
                | Inr skipped \<Rightarrow>
                    (Inr (StatsResp (length allTabs) (length (filter (isSuspendedUrl h) allTabs))
                            (snap_size scheduledInfo) skipped), w))))"

fun collectSkipped :: "host \<Rightarrow> snapshot \<Rightarrow> tab list \<Rightarrow> skipped_tab list \<Rightarrow> error + skipped_tab list" where
  "collectSkipped h scheduledInfo [] skippedTabs = Inr skippedTabs"
| "collectSkipped h scheduledInfo (t # ts) skippedTabs =
     (case tab_id t of
        None \<Rightarrow> collectSkipped h scheduledInfo ts skippedTabs
      | Some n \<Rightarrow>
          (if n = 0 then collectSkipped h scheduledInfo ts skippedTabs
           else if isSuspendedUrl h t then collectSkipped h scheduledInfo ts skippedTabs
           else if isScheduled scheduledInfo t then collectSkipped h scheduledInfo ts skippedTabs
           else (case shouldSkipTabForScheduling h t of
                   Inl e \<Rightarrow> Inl e
                 | Inr None \<Rightarrow> collectSkipped h scheduledInfo ts skippedTabs
                 | Inr (Some skipReason) \<Rightarrow>
                     (if skipReason = [] then collectSkipped h scheduledInfo ts skippedTabs
                      else collectSkipped h scheduledInfo ts
                             (skippedTabs @ [\<lparr> sk_tabId = n, sk_title = tab_title t,
                                               sk_url = tab_url t, sk_reason = skipReason \<rparr>])))))"

definition getSkippedTabsBody :: "host \<Rightarrow> world \<Rightarrow> (error + response) \<times> world" where
  "getSkippedTabsBody h w =
     (case tabs_query_all h of
        Inl e \<Rightarrow> (Inl e, w)
      | Inr tabs \<Rightarrow>
          (case getSchedulingSnapshot h of
             Inl e \<Rightarrow> (Inl e, w)
           | Inr scheduledInfo \<Rightarrow>
               (case collectSkipped h scheduledInfo tabs [] of
                  Inl e \<Rightarrow> (Inl e, w)
                | Inr skippedTabs \<Rightarrow> (Inr (SkippedTabsResp skippedTabs), w))))"

definition resetBulkOpRunningBody :: "host \<Rightarrow> world \<Rightarrow> (error + response) \<times> world" where
  "resetBulkOpRunningBody h w =
     (case setBulkOpRunning h False w of
        (Inl e, w1) \<Rightarrow> (Inl e, w1)
      | (Inr u, w1) \<Rightarrow> (Inr (SuccessResp True), w1))"

definition isBulkOpRunningBody :: "host \<Rightarrow> world \<Rightarrow> (error + response) \<times> world" where
  "isBulkOpRunningBody h w =
     (case getBulkOpRunning h w of
        Inl e \<Rightarrow> (Inl e, w)
      | Inr running \<Rightarrow> (Inr (RunningResp running), w))"

subsection \<open>The router\<close>

text \<open>
  \<^verbatim>\<open>handleMessage(request, sender, sendResponse)\<close>. The result is what the listener
  returns (\<open>True\<close>: the response comes later), the responses sent through
  \<^verbatim>\<open>sendResponse\<close> in order, and the world after the handler has settled; \<open>None\<close> is a
  handler that never settles. A \<^verbatim>\<open>null\<close> request is \<open>None\<close>.
\<close>

type_synonym outcome = "bool \<times> response list \<times> world"

definition sync :: "response \<Rightarrow> world \<Rightarrow> outcome option" where
  "sync r w = Some (False, [r], w)"

definition async :: "(error + response) \<times> world \<Rightarrow> outcome option" where
  "async rw = Some (True, handleAsyncMessage rw)"

definition permissionDenied :: "world \<Rightarrow> outcome option" where
  "permissionDenied w = sync (ErrorResp ''Permission denied'') w"

definition handleMessage :: "host \<Rightarrow> request option \<Rightarrow> sender \<Rightarrow> world \<Rightarrow> outcome option" where
  "handleMessage h req sender w =
     (case req of
        None \<Rightarrow> sync (ErrorResp ''Invalid request'') w
      | Some request \<Rightarrow>
     (case req_type request of
        None \<Rightarrow> sync (ErrorResp ''Invalid request'') w
      | Some ty \<Rightarrow>
     if ty = [] then sync (ErrorResp ''Invalid request'') w
     else if ty = ''IS_BULK_OP_RUNNING'' then async (isBulkOpRunningBody h w)
     else if ty = MSG_SAVE_SETTINGS h then
       (if \<not> validateMessageSender h sender True then permissionDenied w
        else async (saveSettingsBody h request w))
     else if ty = MSG_SAVE_WHITELIST h then
       (if \<not> validateMessageSender h sender True then permissionDenied w
        else async (saveWhitelistBody h request w))
     else if ty = MSG_PREFS_CHANGED h then
       (if \<not> validateMessageSender h sender True then permissionDenied w
        else async (prefsChangedBody h w))
     else if ty = MSG_SUSPEND_TAB h then
       (let isExtensionPage = validateMessageSender h sender True;
            senderTabId = (case sender_tab sender of None \<Rightarrow> None | Some t \<Rightarrow> tab_id t);
            isContentScript = truthy senderTabId
        in if \<not> isExtensionPage \<and> \<not> isContentScript then permissionDenied w
           else (let tabIdToUse = (if truthy (req_tabId request) then req_tabId request else senderTabId)
                 in case tabIdToUse of
                      None \<Rightarrow> sync (ErrorResp ''Missing tabId for suspension: request.tabId and sender.tab.id were both unavailable.'') w
                    | Some n \<Rightarrow>
                        if n \<noteq> 0 then async (suspendTabBody h n (req_isManual request) w)
                        else sync (ErrorResp ''Missing tabId for suspension: request.tabId and sender.tab.id were both unavailable.'') w))
     else if ty = MSG_UNSUSPEND_TAB h then
       (if \<not> validateMessageSender h sender True then permissionDenied w
        else (case req_tabId request of
                None \<Rightarrow> sync (ErrorResp ''Missing tabId'') w
              | Some n \<Rightarrow>
                  if n \<noteq> 0 then async (unsuspendTabBody h n (req_shouldFocus request) w)
                  else sync (ErrorResp ''Missing tabId'') w))
     else if ty = MSG_SUSPEND_ALL_TABS_IN_WINDOW h then
       (if \<not> validateMessageSender h sender True then permissionDenied w
        else async (suspendAllInWindowBody h request sender w))
     else if ty = MSG_UNSUSPEND_ALL_TABS_IN_WINDOW h then
       (if \<not> validateMessageSender h sender True then permissionDenied w
        else async (unsuspendAllInWindowBody h request sender w))
     else if ty = MSG_SUSPEND_ALL_TABS_ALL_SPECS h then
       (if \<not> validateMessageSender h sender True then permissionDenied w
        else async (suspendAllSpecsBody h w))
     else if ty = MSG_UNSUSPEND_ALL_TABS_ALL_SPECS h then
       (if \<not> validateMessageSender h sender True then permissionDenied w
        else async (unsuspendAllSpecsBody h w))
     else if ty = MSG_SUSPEND_SELECTED_TABS h then
       (if \<not> validateMessageSender h sender True then permissionDenied w
        else (case req_tabIds request of
                None \<Rightarrow> sync (ErrorResp ''No tabIds provided'') w
              | Some tabIds \<Rightarrow>
                  if tabIds = [] then sync (ErrorResp ''No tabIds provided'') w
                  else async (suspendSelectedBody h tabIds w)))
     else if ty = MSG_UNSUSPEND_SELECTED_TABS h then
       (if \<not> validateMessageSender h sender True then permissionDenied w
        else (case req_tabIds request of
                None \<Rightarrow> sync (ErrorResp ''No tabIds provided'') w
              | Some tabIds \<Rightarrow>
                  if tabIds = [] then sync (ErrorResp ''No tabIds provided'') w
                  else async (unsuspendSelectedBody h tabIds w)))
     else if ty = MSG_CLEAR_FAVICON_CACHE h then async (clearFaviconCacheBody h w)
     else if ty = MSG_REFRESH_ALL_SUSPENDED_FAVICONS h then
       (case refreshAllSuspendedFaviconsBody h w of None \<Rightarrow> None | Some rw \<Rightarrow> async rw)
     else if ty = MSG_GET_EXTENSION_STATS h then async (getExtensionStatsBody h w)
     else if ty = MSG_GET_SKIPPED_TABS h then async (getSkippedTabsBody h w)
     else if ty = MSG_RESET_BULK_OP_RUNNING h then async (resetBulkOpRunningBody h w)
     else sync (ErrorResp ''Unknown message type'') w))"

text \<open>
  The kinds the router knows, and the kinds the interface lists as privileged: every kind
  but the status query and the single-tab suspend (which a content script may send too).
\<close>

definition recognized :: "host \<Rightarrow> string set" where
  "recognized h = {''IS_BULK_OP_RUNNING'', MSG_SAVE_SETTINGS h, MSG_SAVE_WHITELIST h,
     MSG_PREFS_CHANGED h, MSG_SUSPEND_TAB h, MSG_UNSUSPEND_TAB h,
     MSG_SUSPEND_ALL_TABS_IN_WINDOW h, MSG_UNSUSPEND_ALL_TABS_IN_WINDOW h,
     MSG_SUSPEND_ALL_TABS_ALL_SPECS h, MSG_UNSUSPEND_ALL_TABS_ALL_SPECS h,
     MSG_SUSPEND_SELECTED_TABS h, MSG_UNSUSPEND_SELECTED_TABS h,
     MSG_CLEAR_FAVICON_CACHE h, MSG_REFRESH_ALL_SUSPENDED_FAVICONS h,
     MSG_GET_EXTENSION_STATS h, MSG_GET_SKIPPED_TABS h, MSG_RESET_BULK_OP_RUNNING h}"

definition validatedKinds :: "host \<Rightarrow> string set" where
  "validatedKinds h = {MSG_SAVE_SETTINGS h, MSG_SAVE_WHITELIST h, MSG_PREFS_CHANGED h,
     MSG_UNSUSPEND_TAB h, MSG_SUSPEND_ALL_TABS_IN_WINDOW h, MSG_UNSUSPEND_ALL_TABS_IN_WINDOW h,
     MSG_SUSPEND_ALL_TABS_ALL_SPECS h, MSG_UNSUSPEND_ALL_TABS_ALL_SPECS h,
     MSG_SUSPEND_SELECTED_TABS h, MSG_UNSUSPEND_SELECTED_TABS h}"

definition toolsKinds :: "host \<Rightarrow> string set" where
  "toolsKinds h = {MSG_CLEAR_FAVICON_CACHE h, MSG_REFRESH_ALL_SUSPENDED_FAVICONS h,
     MSG_GET_EXTENSION_STATS h, MSG_GET_SKIPPED_TABS h, MSG_RESET_BULK_OP_RUNNING h}"

section \<open>The event handlers\<close>

text \<open>
  \<^verbatim>\<open>handleTabRemoved(tabId, removeInfo)\<close>, with the two fields of \<^verbatim>\<open>removeInfo\<close> as
  arguments. \<^verbatim>\<open>Logger.withErrorHandling\<close> runs the function it is given.
\<close>

definition handleTabRemoved :: "host \<Rightarrow> int \<Rightarrow> int \<Rightarrow> bool \<Rightarrow> world \<Rightarrow> world" where
  "handleTabRemoved h tabId windowId isWindowClosing w =
     (let w1 = emit (RemoveTabSuspendTime tabId) w
      in if \<not> isWindowClosing
         then (let activeTabInWindow = getActiveTabForWindow windowId w1
               in if activeTabInWindow = Some tabId
                  then (case tabs_query_active h windowId of
                          Inl e \<Rightarrow> w1
                        | Inr activeTabs \<Rightarrow>
                            (case activeTabs of
                               [] \<Rightarrow> w1
                             | t # rest \<Rightarrow> setActiveTabForWindow windowId t w1))
                  else w1)
         else w1)"

text \<open>
  \<^verbatim>\<open>handleTabActivated({tabId, windowId})\<close>. The Map is written before the first
  \<^verbatim>\<open>await\<close>. \<open>focusOfWindow\<close> is the first inner \<^verbatim>\<open>try\<close>: \<open>None\<close> when the browser
  answers with no window (the handler returns), else the value of \<^verbatim>\<open>isFocusedWindow\<close>.
\<close>

definition focusOfWindow :: "host \<Rightarrow> int \<Rightarrow> world \<Rightarrow> bool option" where
  "focusOfWindow h windowId w =
     (case windows_get h windowId of
        Inl e \<Rightarrow> Some (windowId = getLastFocusedWindow w)
      | Inr None \<Rightarrow> None
      | Inr (Some win) \<Rightarrow> Some (win_focused win))"

definition reschedulePrevious :: "host \<Rightarrow> int option \<Rightarrow> int \<Rightarrow> world \<Rightarrow> world" where
  "reschedulePrevious h previousActiveTabId tabId w =
     (case previousActiveTabId of
        None \<Rightarrow> w
      | Some p \<Rightarrow>
          (if p \<noteq> 0 \<and> p \<noteq> tabId
           then (case tabs_get h p of
                   Inl e \<Rightarrow> w
                 | Inr None \<Rightarrow> w
                 | Inr (Some previousTab) \<Rightarrow>
                     (case tab_url previousTab of
                        None \<Rightarrow> w
                      | Some u \<Rightarrow>
                          (if \<not> startsWith u (getURL h ''suspended.html'')
                           then snd (attempt (ScheduleTab p) (scheduleTab_error h p) w)
                           else w)))
           else w))"

definition handleTabActivated :: "host \<Rightarrow> int \<Rightarrow> int \<Rightarrow> world \<Rightarrow> world" where
  "handleTabActivated h tabId windowId w =
     (let previousActiveTabId = getActiveTabForWindow windowId w;
          w1 = setActiveTabForWindow windowId tabId w
      in case focusOfWindow h windowId w1 of
           None \<Rightarrow> w1
         | Some isFocusedWindow \<Rightarrow>
             (if isFocusedWindow \<or> (neverSuspendLastWindow h \<and> windowId = getLastFocusedWindow w1)
              then (case attempt (UnscheduleTab tabId) (unscheduleTab_error h tabId) w1 of
                      (Inl e, w2) \<Rightarrow> w2
                    | (Inr u, w2) \<Rightarrow>
                        reschedulePrevious h previousActiveTabId tabId
                          (if isFocusedWindow then updateLastFocusedWindow windowId w2 else w2))
              else reschedulePrevious h previousActiveTabId tabId w1))"

text \<open>
  Histories of the two events that write an entry of the Map or drop it: a tab is
  activated, or a window's tracking is removed. Each event comes with the answers the
  host gives while it is handled.
\<close>

datatype event = Activated int int | TrackingRemoved int

fun handleEvent :: "host \<times> event \<Rightarrow> world \<Rightarrow> world" where
  "handleEvent (h, Activated tabId windowId) w = handleTabActivated h tabId windowId w"
| "handleEvent (h, TrackingRemoved windowId) w = removeWindowTracking windowId w"

definition run :: "(host \<times> event) list \<Rightarrow> world \<Rightarrow> world" where
  "run es w = fold handleEvent es w"

text \<open>
  What the specification says \<open>activeTabFor\<close> is, read off a history with the latest event
  first: the tab of the most recent activation for the window, nothing when the window was
  never activated or its tracking was removed after that.
\<close>

fun mostRecent :: "event list \<Rightarrow> int \<Rightarrow> int option" where
  "mostRecent [] w = None"
| "mostRecent (Activated tabId windowId # earlier) w =
     (if windowId = w then Some tabId else mostRecent earlier w)"
| "mostRecent (TrackingRemoved windowId # earlier) w =
     (if windowId = w then None else mostRecent earlier w)"

section \<open>Concrete hosts and worlds\<close>

text \<open>
  A host on which every call resolves, with example values for the constants and the
  timers of a browser (a delay is taken modulo \<open>2^32\<close> as a signed integer, a negative one
  is 0); hosts whose
  storage rejects every write or whose tab query rejects; and a few worlds and requests.
\<close>

definition quietHost :: host where
  "quietHost = \<lparr> runtime_id = ''abcdefghijklmnop'',
     windows_getAll = Inr [],
     windows_get = (\<lambda>i. Inr (Some \<lparr> win_id = i, win_focused = True \<rparr>)),
     windows_getCurrent = Inr \<lparr> win_id = 1, win_focused = True \<rparr>,
     tabs_query_active = (\<lambda>i. Inr []),
     tabs_query_suspended = Inr [],
     tabs_query_all = Inr [],
     tabs_query_http = Inr [],
     tabs_get = (\<lambda>i. Inr None),
     tabs_reload_error = (\<lambda>i. None),
     tabs_reload_latency = (\<lambda>i. 0),
     storage_get_error = (\<lambda>k. None),
     storage_set_error = (\<lambda>k v. None),
     storage_cache_set_error = None,
     runtime_sendMessage_error = (\<lambda>t. None),
     neverSuspendLastWindow = False,
     savePrefs_error = None,
     suspendAfter_changed = False,
     unsavedFormHandling_changed = False,
     saveWhitelist_error = None,
     sessionAutoSaveFrequency = 5,
     alarms_error = None,
     scheduleTab_error = (\<lambda>i. None),
     unscheduleTab_error = (\<lambda>i. None),
     scheduleAllTabs_error = None,
     getSchedulingSnapshot = Inr \<lparr> snap_size = 0, snap_entries = [] \<rparr>,
     suspendTab_result = (\<lambda>i. Inr True),
     unsuspendTab_result = (\<lambda>i. Inr True),
     suspendAll_error = None,
     unsuspendAll_error = None,
     shouldSkipTabForScheduling = (\<lambda>t. Inr None),
     MSG_SAVE_SETTINGS = ''MSG_saveSettings'',
     MSG_SAVE_WHITELIST = ''MSG_saveWhitelist'',
     MSG_PREFS_CHANGED = ''MSG_prefsChanged'',
     MSG_SUSPEND_TAB = ''MSG_suspendTab'',
     MSG_UNSUSPEND_TAB = ''MSG_unsuspendTab'',
     MSG_SUSPEND_ALL_TABS_IN_WINDOW = ''MSG_suspendAllTabsInWindow'',
     MSG_UNSUSPEND_ALL_TABS_IN_WINDOW = ''MSG_unsuspendAllTabsInWindow'',
     MSG_SUSPEND_ALL_TABS_ALL_SPECS = ''MSG_suspendAllTabsAllSpecs'',
     MSG_UNSUSPEND_ALL_TABS_ALL_SPECS = ''MSG_unsuspendAllTabsAllSpecs'',
     MSG_SUSPEND_SELECTED_TABS = ''MSG_suspendSelectedTabs'',
     MSG_UNSUSPEND_SELECTED_TABS = ''MSG_unsuspendSelectedTabs'',
     MSG_CLEAR_FAVICON_CACHE = ''MSG_clearFaviconCache'',
     MSG_REFRESH_ALL_SUSPENDED_FAVICONS = ''MSG_refreshAllSuspendedFavicons'',
     MSG_GET_EXTENSION_STATS = ''MSG_getExtensionStats'',
     MSG_GET_SKIPPED_TABS = ''MSG_getSkippedTabs'',
     MSG_RESET_BULK_OP_RUNNING = ''MSG_resetBulkOpRunning'',
     MSG_FAVICON_REFRESH_PROGRESS = ''MSG_faviconRefreshProgress'',
     MSG_FAVICON_REFRESH_DONE = ''MSG_faviconRefreshDone'',
     SUSPENDED_PAGE_PATH = ''suspended.html'',
     TS_SESSION_FREQUENT_SAVE = ''TS_SESSION_FREQUENT_SAVE'',
     timer_overflow = (\<lambda>d. if d mod 4294967296 < 2147483648 then d mod 4294967296 else 0) \<rparr>"

definition failingStorageHost :: host where
  "failingStorageHost = quietHost\<lparr> storage_set_error := (\<lambda>k v. Some (Error ''QUOTA_BYTES quota exceeded'')) \<rparr>"

definition deafHost :: host where
  "deafHost = quietHost\<lparr> runtime_sendMessage_error :=
     (\<lambda>t. Some (Error ''Could not establish connection. Receiving end does not exist.'')) \<rparr>"

definition tabOfId :: "int \<Rightarrow> tab" where
  "tabOfId n = \<lparr> tab_id = Some n, tab_windowId = Some 1, tab_url = Some ''https://example.org/'',
     tab_title = None \<rparr>"

definition trackedWorld :: world where
  "trackedWorld = initial\<lparr> lastFocusedWindowId := 2, activeTabsByWindow := [(1, 10), (2, 20), (3, 30)] \<rparr>"

definition liveWindows :: "window list" where
  "liveWindows = [\<lparr> win_id = 1, win_focused = True \<rparr>, \<lparr> win_id = 3, win_focused = False \<rparr>]"

text \<open>
  Nine descriptors, one of them with id 0 and one without id; the seven others; and a host
  on which the reload of tab 4 rejects.
\<close>

definition nineDescriptors :: "tab list" where
  "nineDescriptors = [tabOfId 1, tabOfId 0, tabOfId 2, tabOfId 3,
     \<lparr> tab_id = None, tab_windowId = None, tab_url = None, tab_title = None \<rparr>,
     tabOfId 4, tabOfId 5, tabOfId 6, tabOfId 7]"

definition sevenTabs :: "tab list" where
  "sevenTabs = map tabOfId [1, 2, 3, 4, 5, 6, 7]"

definition flakyHost :: host where
  "flakyHost = quietHost\<lparr> tabs_reload_error :=
     (\<lambda>i. if i = Some 4 then Some (Error ''No tab with id: 4.'') else None) \<rparr>"

text \<open>
  Requests that carry a type and nothing else; a sender that is a page of the extension
  and one that is a content script in a web page; a host whose tab query rejects.
\<close>

definition requestOf :: "string option \<Rightarrow> request" where
  "requestOf ty = \<lparr> req_type = ty, req_settings = False, req_newWhitelist = False,
     req_tabId = None, req_isManual = False, req_shouldFocus = False, req_windowId = None,
     req_tabIds = None \<rparr>"

definition extensionSender :: sender where
  "extensionSender = \<lparr> sender_id = Some ''abcdefghijklmnop'',
     sender_url = Some ''chrome-extension://abcdefghijklmnop/options.html'', sender_tab = None \<rparr>"

definition contentScriptSender :: sender where
  "contentScriptSender = \<lparr> sender_id = Some ''abcdefghijklmnop'',
     sender_url = Some ''https://example.org/'', sender_tab = Some (tabOfId 7) \<rparr>"

definition brokenQueryHost :: host where
  "brokenQueryHost = quietHost\<lparr> tabs_query_suspended := Inl (Error ''Tabs cannot be queried right now'') \<rparr>"

text \<open>The world after a first, successful \<^verbatim>\<open>setBulkOpRunning(true)\<close>.\<close>

definition armedWorld :: world where
  "armedWorld = snd (setBulkOpRunning quietHost True initial)"

text \<open>
  The world after two calls \<^verbatim>\<open>setBulkOpRunning(true)\<close> that overlap: the second starts
  while the first awaits its storage write, then the two writes settle in turn.
\<close>

definition overlappedWorld :: world where
  "overlappedWorld =
     snd (setBulkOpRunning_resume quietHost True
       (snd (setBulkOpRunning_resume quietHost True
         (setBulkOpRunning_start True (setBulkOpRunning_start True initial)))))"

section \<open>Properties of the state store\<close>

lemma Map_get_delete: "Map_get k (Map_delete k' m) = (if k = k' then None else Map_get k m)"
  by (simp add: Map_get_def Map_delete_def delete_conv)

lemma Map_get_set: "Map_get k (Map_set k' v m) = (if k = k' then Some v else Map_get k m)"
  by (simp add: Map_get_def Map_set_def update_conv)

lemma Map_has_delete: "Map_has k (Map_delete k' m) = (k \<noteq> k' \<and> Map_has k m)"
  by (auto simp: Map_has_def Map_delete_def delete_keys)

text \<open>
  C7. \<open>removeWindowTracking w\<close> drops the entry of window \<open>w\<close> from the Map and leaves every
  other entry as it was; the last focused window becomes the none sentinel when it was \<open>w\<close>
  and is unchanged otherwise.
\<close>

theorem removeWindowTracking_drops_entry:
  "getActiveTabForWindow windowId (removeWindowTracking windowId w) = None
   \<and> \<not> Map_has windowId (activeTabsByWindow (removeWindowTracking windowId w))
   \<and> (\<forall>k. k \<noteq> windowId \<longrightarrow>
         getActiveTabForWindow k (removeWindowTracking windowId w) = getActiveTabForWindow k w)
   \<and> (lastFocusedWindowId w = windowId \<longrightarrow>
         lastFocusedWindowId (removeWindowTracking windowId w) = WINDOW_ID_NONE)
   \<and> (lastFocusedWindowId w \<noteq> windowId \<longrightarrow>
         lastFocusedWindowId (removeWindowTracking windowId w) = lastFocusedWindowId w)"
  by (simp add: removeWindowTracking_def getActiveTabForWindow_def Map_get_delete Map_has_delete
      Let_def)

theorem removeWindowTracking_drops_entry_witness:
  "getActiveTabForWindow 2 (removeWindowTracking 2 trackedWorld) = None
   \<and> getActiveTabForWindow 1 (removeWindowTracking 2 trackedWorld) = Some 10
   \<and> lastFocusedWindowId (removeWindowTracking 2 trackedWorld) = WINDOW_ID_NONE
   \<and> lastFocusedWindowId (removeWindowTracking 3 trackedWorld) = 2"
  using removeWindowTracking_drops_entry [of 2 trackedWorld]
    removeWindowTracking_drops_entry [of 3 trackedWorld]
  by (simp add: trackedWorld_def initial_def getActiveTabForWindow_def Map_get_def)

lemma cleanupLoop_filter:
  "cleanupLoop ks S m = filter (\<lambda>p. fst p \<in> S \<or> fst p \<notin> set ks) m"
proof (induction ks arbitrary: m)
  case Nil
  show ?case by simp
next
  case (Cons k ks)
  show ?case
  proof (cases "k \<in> S")
    case True
    then have "cleanupLoop (k # ks) S m = filter (\<lambda>p. fst p \<in> S \<or> fst p \<notin> set ks) m"
      by (simp add: Cons.IH)
    also have "\<dots> = filter (\<lambda>p. fst p \<in> S \<or> fst p \<notin> set (k # ks)) m"
      using True by (intro filter_cong) auto
    finally show ?thesis .
  next
    case False
    then have "cleanupLoop (k # ks) S m
        = filter (\<lambda>p. fst p \<in> S \<or> fst p \<notin> set ks) (Map_delete k m)"
      by (simp add: Cons.IH)
    also have "\<dots> = filter (\<lambda>p. fst p \<in> S \<or> fst p \<notin> set (k # ks)) m"
      unfolding Map_delete_def AList.delete_eq filter_filter
      using False by (intro filter_cong) auto
    finally show ?thesis .
  qed
qed

lemma cleanupLoop_keys:
  "cleanupLoop (Map_keys m) S m = filter (\<lambda>(k, v). k \<in> S) m"
  unfolding cleanupLoop_filter Map_keys_def
  by (rule filter_cong) (auto simp: image_iff)

lemma Map_get_filter:
  "Map_get k (filter (\<lambda>(k', v). k' \<in> S) m) = (if k \<in> S then Map_get k m else None)"
  by (induction m) (auto simp: Map_get_def)

text \<open>
  C5. Given the live windows, the sweep keeps exactly the entries of the Map whose window
  is live, with their values and in their order, and deletes the others; the last focused
  window stays when it is live and is the none sentinel otherwise.
\<close>

theorem cleanupStateReferences_sweep:
  "activeTabsByWindow (snd (cleanupStateReferences (h\<lparr> windows_getAll := Inr windows \<rparr>) w))
     = filter (\<lambda>(k, v). k \<in> set (map win_id windows)) (activeTabsByWindow w)
   \<and> getActiveTabForWindow k (snd (cleanupStateReferences (h\<lparr> windows_getAll := Inr windows \<rparr>) w))
     = (if k \<in> set (map win_id windows) then getActiveTabForWindow k w else None)
   \<and> lastFocusedWindowId (snd (cleanupStateReferences (h\<lparr> windows_getAll := Inr windows \<rparr>) w))
     = (if lastFocusedWindowId w \<in> set (map win_id windows) then lastFocusedWindowId w
        else WINDOW_ID_NONE)"
  by (simp add: cleanupStateReferences_def Let_def cleanupLoop_keys getActiveTabForWindow_def
      Map_get_filter del: set_map)

theorem cleanupStateReferences_sweep_witness:
  "activeTabsByWindow (snd (cleanupStateReferences (quietHost\<lparr> windows_getAll := Inr liveWindows \<rparr>) trackedWorld))
     = [(1, 10), (3, 30)]
   \<and> getActiveTabForWindow 2 (snd (cleanupStateReferences (quietHost\<lparr> windows_getAll := Inr liveWindows \<rparr>) trackedWorld))
     = None
   \<and> lastFocusedWindowId (snd (cleanupStateReferences (quietHost\<lparr> windows_getAll := Inr liveWindows \<rparr>) trackedWorld))
     = WINDOW_ID_NONE"
  using cleanupStateReferences_sweep [where h = quietHost and windows = liveWindows and w = trackedWorld and k = 2]
  by (simp add: trackedWorld_def initial_def liveWindows_def)

text \<open>
  C10. The accessors of the two durable flags never raise. A getter answers with the stored
  value when the read resolves, so it answers \<open>False\<close> when the read rejects or the key is
  unset; a setter resolves whether the write resolves or rejects, and so does the callback
  of the watchdog.
\<close>

theorem durable_flag_accessors_total:
  "getBulkOpRunning h w
     = Inr (storage_get_error h BULK_RUNNING = None \<and> storage w BULK_RUNNING = Some True)
   \<and> getFaviconRefreshRunning h w
     = Inr (storage_get_error h FAVICON_REFRESH_RUNNING = None
            \<and> storage w FAVICON_REFRESH_RUNNING = Some True)
   \<and> (storage_get_error h BULK_RUNNING \<noteq> None \<or> storage w BULK_RUNNING = None
        \<longrightarrow> getBulkOpRunning h w = Inr False)
   \<and> (storage_get_error h FAVICON_REFRESH_RUNNING \<noteq> None \<or> storage w FAVICON_REFRESH_RUNNING = None
        \<longrightarrow> getFaviconRefreshRunning h w = Inr False)
   \<and> fst (setBulkOpRunning h v w) = Inr ()
   \<and> fst (setFaviconRefreshRunning h v w) = Inr ()
   \<and> fst (bulkOpTimeoutCallback h w) = Inr ()"
  by (auto simp: getBulkOpRunning_def getFaviconRefreshRunning_def chrome_storage_local_get_def
      setBulkOpRunning_def setFaviconRefreshRunning_def bulkOpTimeoutCallback_def Let_def
      split: option.splits sum.splits prod.splits)

theorem durable_flag_accessors_total_witness:
  "storage initial BULK_RUNNING = None
   \<and> getBulkOpRunning quietHost initial = Inr False
   \<and> getFaviconRefreshRunning quietHost initial = Inr False
   \<and> storage_set_error failingStorageHost BULK_RUNNING True \<noteq> None
   \<and> fst (setBulkOpRunning failingStorageHost True initial) = Inr ()
   \<and> fst (setFaviconRefreshRunning failingStorageHost True initial) = Inr ()"
  using durable_flag_accessors_total [of quietHost initial True]
    durable_flag_accessors_total [of failingStorageHost initial True]
  by (simp add: initial_def failingStorageHost_def)

section \<open>Properties of the active-tab map\<close>

lemma activeTabs_emit [simp]: "activeTabsByWindow (emit e w) = activeTabsByWindow w"
  by (simp add: emit_def)

lemma activeTabs_updateLastFocusedWindow [simp]:
  "activeTabsByWindow (updateLastFocusedWindow k w) = activeTabsByWindow w"
  by (simp add: updateLastFocusedWindow_def)

lemma activeTabs_reschedulePrevious [simp]:
  "activeTabsByWindow (reschedulePrevious h p t w) = activeTabsByWindow w"
  by (simp add: reschedulePrevious_def attempt_def split: option.splits sum.splits)

lemma activeTabs_handleTabActivated:
  "activeTabsByWindow (handleTabActivated h tabId windowId w)
     = Map_set windowId tabId (activeTabsByWindow w)"
proof -
  have s: "activeTabsByWindow (setActiveTabForWindow windowId tabId w)
      = Map_set windowId tabId (activeTabsByWindow w)"
    by (simp add: setActiveTabForWindow_def)
  show ?thesis
    unfolding handleTabActivated_def Let_def
    by (auto simp: s attempt_def split: option.splits sum.splits prod.splits)
qed

lemma getActiveTabForWindow_handleEvent:
  "getActiveTabForWindow k (handleEvent (h, e) w)
     = (case e of
          Activated tabId windowId \<Rightarrow> if windowId = k then Some tabId else getActiveTabForWindow k w
        | TrackingRemoved windowId \<Rightarrow> if windowId = k then None else getActiveTabForWindow k w)"
  by (cases e)
     (auto simp: getActiveTabForWindow_def activeTabs_handleTabActivated Map_get_set Map_get_delete
        removeWindowTracking_def Let_def)

text \<open>
  C6. After any history of activations and removals of window tracking, run from the
  initial state and whatever the host answers, the active tab of a window is the tab of
  the most recent activation for that window, and there is none when the window was never
  activated or its tracking was removed since.
\<close>

theorem activeTabFor_most_recent_activation:
  "getActiveTabForWindow k (run es initial) = mostRecent (rev (map snd es)) k"
proof (induction es rule: rev_induct)
  case Nil
  show ?case by (simp add: run_def initial_def getActiveTabForWindow_def Map_get_def)
next
  case (snoc x es)
  obtain h e where x: "x = (h, e)" by (cases x)
  have "run (es @ [(h, e)]) initial = handleEvent (h, e) (run es initial)"
    by (simp add: run_def del: handleEvent.simps)
  then have step: "getActiveTabForWindow k (run (es @ [(h, e)]) initial)
      = (case e of
           Activated tabId windowId \<Rightarrow>
             if windowId = k then Some tabId else getActiveTabForWindow k (run es initial)
         | TrackingRemoved windowId \<Rightarrow>
             if windowId = k then None else getActiveTabForWindow k (run es initial))"
    by (simp only: getActiveTabForWindow_handleEvent)
  have "getActiveTabForWindow k (run (es @ [(h, e)]) initial) = mostRecent (e # rev (map snd es)) k"
    unfolding step using snoc.IH by (cases e) simp_all
  then show ?case
    by (simp add: x)
qed

theorem activeTabFor_most_recent_activation_witness:
  "getActiveTabForWindow 1
     (run [(quietHost, Activated 10 1), (quietHost, Activated 20 2), (quietHost, Activated 11 1),
           (quietHost, TrackingRemoved 2)] initial) = Some 11
   \<and> getActiveTabForWindow 2
     (run [(quietHost, Activated 10 1), (quietHost, Activated 20 2), (quietHost, Activated 11 1),
           (quietHost, TrackingRemoved 2)] initial) = None
   \<and> getActiveTabForWindow 3
     (run [(quietHost, Activated 10 1), (quietHost, Activated 20 2), (quietHost, Activated 11 1),
           (quietHost, TrackingRemoved 2)] initial) = None"
  using activeTabFor_most_recent_activation [of 1 "[(quietHost, Activated 10 1),
      (quietHost, Activated 20 2), (quietHost, Activated 11 1), (quietHost, TrackingRemoved 2)]"]
    activeTabFor_most_recent_activation [of 2 "[(quietHost, Activated 10 1),
      (quietHost, Activated 20 2), (quietHost, Activated 11 1), (quietHost, TrackingRemoved 2)]"]
    activeTabFor_most_recent_activation [of 3 "[(quietHost, Activated 10 1),
      (quietHost, Activated 20 2), (quietHost, Activated 11 1), (quietHost, TrackingRemoved 2)]"]
  by simp

section \<open>Properties of the watchdog\<close>

lemma timeoutOf_small: "d < 2147483648 \<Longrightarrow> timeoutOf h d = d"
  by (simp add: timeoutOf_def)

lemma timeoutOf_BULK_OP_TIMEOUT_MS [simp]: "timeoutOf h BULK_OP_TIMEOUT_MS = BULK_OP_TIMEOUT_MS"
  by (simp add: timeoutOf_def BULK_OP_TIMEOUT_MS_def)

text \<open>A run in which nothing else happens during the await is the two halves, one after the other.\<close>

lemma setBulkOpRunning_phases:
  "setBulkOpRunning h v w = setBulkOpRunning_resume h v (setBulkOpRunning_start v w)"
  by (simp add: setBulkOpRunning_def setBulkOpRunning_start_def setBulkOpRunning_resume_def
      chrome_storage_local_set_def emit_def Let_def split: option.splits)

lemma bulkOpTimeoutCallback_phases:
  "bulkOpTimeoutCallback h w = bulkOpTimeoutCallback_resume h (bulkOpTimeoutCallback_start w)"
  by (simp add: bulkOpTimeoutCallback_def bulkOpTimeoutCallback_start_def
      bulkOpTimeoutCallback_resume_def chrome_storage_local_set_def emit_def Let_def
      split: option.splits)

text \<open>
  What each half does in any world, whatever ran before it: the start of a call cancels
  the timer that \<open>bulkOpTimeoutId\<close> names, and that one only; the second half of a call
  with \<open>true\<close>, when the write has resolved, stores the flag and arms one more timer, due
  in 10 minutes; the second half of a callback, when its write has resolved, stores the
  flag false, forgets the timer and attempts one broadcast.
\<close>

lemma setBulkOpRunning_start_cancels:
  assumes "bulkOpTimeoutId w = Some t" "t \<noteq> 0"
  shows "timers (setBulkOpRunning_start v w) = filter (\<lambda>(i, due). i \<noteq> t) (timers w)
       \<and> bulkOpTimeoutId (setBulkOpRunning_start v w) = None"
  using assms by (simp add: setBulkOpRunning_start_def clearTimeout_def emit_def Let_def)

lemma setBulkOpRunning_resume_arms:
  assumes "storage_set_error h BULK_RUNNING True = None"
  shows "timers (snd (setBulkOpRunning_resume h True w))
           = timers w @ [(Suc (timerCount w), clock w + BULK_OP_TIMEOUT_MS)]
       \<and> bulkOpTimeoutId (snd (setBulkOpRunning_resume h True w)) = Some (Suc (timerCount w))
       \<and> storage (snd (setBulkOpRunning_resume h True w)) BULK_RUNNING = Some True"
  using assms by (simp add: setBulkOpRunning_resume_def setTimeout_def emit_def Let_def)

lemma bulkOpTimeoutCallback_resume_resolved:
  assumes "storage_set_error h BULK_RUNNING False = None"
  shows "storage (snd (bulkOpTimeoutCallback_resume h w)) BULK_RUNNING = Some False
       \<and> bulkOpTimeoutId (snd (bulkOpTimeoutCallback_resume h w)) = None
       \<and> timers (snd (bulkOpTimeoutCallback_resume h w)) = timers w
       \<and> trace (snd (bulkOpTimeoutCallback_resume h w))
           = trace w @ [RuntimeSendMessage ''MSG_resetBulkOpRunning'' (Some ''timeout'')]"
  using assms
  by (auto simp: bulkOpTimeoutCallback_resume_def chrome_runtime_sendMessage_def
      emit_def Let_def split: option.splits)

lemma bulkOpTimeoutCallback_resume_swallows: "fst (bulkOpTimeoutCallback_resume h w) = Inr ()"
  by (auto simp: bulkOpTimeoutCallback_resume_def Let_def split: option.splits sum.splits prod.splits)

text \<open>
  The invariant holds at the start; calls that run with nothing in between keep it, and so
  does time passing.
\<close>

lemma watchdogInv_initial: "watchdogInv initial"
  by (simp add: watchdogInv_def initial_def)

lemma setBulkOpRunning_timers:
  assumes "watchdogInv w"
  shows "timers (snd (setBulkOpRunning h v w))
           = (if v \<and> storage_set_error h BULK_RUNNING v = None
              then [(Suc (timerCount w), clock w + BULK_OP_TIMEOUT_MS)] else [])
       \<and> bulkOpTimeoutId (snd (setBulkOpRunning h v w))
           = (if v \<and> storage_set_error h BULK_RUNNING v = None then Some (Suc (timerCount w)) else None)
       \<and> clock (snd (setBulkOpRunning h v w)) = clock w"
  using assms
  by (auto simp: watchdogInv_def setBulkOpRunning_def clearTimeout_def setTimeout_def
      chrome_storage_local_set_def emit_def Let_def split: option.splits prod.splits)

lemma watchdogInv_setBulkOpRunning:
  "watchdogInv w \<Longrightarrow> watchdogInv (snd (setBulkOpRunning h v w))"
  using setBulkOpRunning_timers [of w h v] by (auto simp: watchdogInv_def)

lemma elapse_none: "timers w = [] \<Longrightarrow> elapse d w = w\<lparr> clock := clock w + d \<rparr>"
  by (cases w) (simp add: elapse_def dueTimers_def)

lemma elapse_early:
  "timers w = [(t, due)] \<Longrightarrow> clock w + d < due \<Longrightarrow> elapse d w = w\<lparr> clock := clock w + d \<rparr>"
  by (cases w) (simp add: elapse_def dueTimers_def)

lemma elapse_due:
  "timers w = [(t, due)] \<Longrightarrow> due \<le> clock w + d \<Longrightarrow>
   elapse d w = bulkOpTimeoutCallback_start (w\<lparr> clock := clock w + d, timers := [] \<rparr>)"
  by (simp add: elapse_def dueTimers_def)

lemma watchdogInv_elapse:
  assumes inv: "watchdogInv w"
  shows "watchdogInv (elapse d w)"
proof (cases "timers w")
  case Nil
  then show ?thesis
    using inv by (simp add: elapse_none watchdogInv_def)
next
  case (Cons p ps)
  with inv obtain t due where t: "timers w = [(t, due)]" "bulkOpTimeoutId w = Some t"
    by (auto simp: watchdogInv_def)
  have z: "bulkOpTimeoutId w \<noteq> Some 0"
    using inv by (simp add: watchdogInv_def)
  show ?thesis
  proof (cases "due \<le> clock w + d")
    case True
    then show ?thesis
      using z by (simp add: elapse_due [OF t(1)] watchdogInv_def bulkOpTimeoutCallback_start_def emit_def)
  next
    case False
    then show ?thesis
      using t z by (simp add: elapse_early [OF t(1)] watchdogInv_def)
  qed
qed

lemma watchdogInv_bulkOpTimeoutCallback_resume:
  assumes "watchdogInv w" "timers w = []"
  shows "watchdogInv (snd (bulkOpTimeoutCallback_resume h w))"
  using assms
  by (auto simp: watchdogInv_def bulkOpTimeoutCallback_resume_def chrome_runtime_sendMessage_def
      emit_def Let_def split: option.splits)

lemma setBulkOpRunning_persisted:
  assumes "storage_set_error h BULK_RUNNING v = None"
  shows "storage (snd (setBulkOpRunning h v w)) BULK_RUNNING = Some v"
  using assms
  by (auto simp: setBulkOpRunning_def clearTimeout_def setTimeout_def
      chrome_storage_local_set_def emit_def Let_def split: option.splits prod.splits)

text \<open>
  C1, as the code has it. The world is any world in which no watchdog timer is armed but
  the one \<open>bulkOpTimeoutId\<close> names, and nothing else of the store runs while the call or
  the callback awaits its storage write. A call \<^verbatim>\<open>setBulkOpRunning(true)\<close> resolves and
  cancels the timer armed before. When its storage write resolves, the flag is stored
  true and one new timer is armed, due in 10 minutes, which does nothing before that; when
  the write rejects, no timer is armed. When the 10 minutes pass with no other call, this
  one timer fires; when the write of its callback resolves, the flag is stored false,
  exactly one reset broadcast is attempted, whether it is delivered or not, no timer is
  left and the invariant holds again. The callback resolves in every case: a failed
  delivery is not passed on.
\<close>

theorem watchdog_arms_and_fires:
  assumes inv: "watchdogInv w"
  shows "fst (setBulkOpRunning h True w) = Inr ()
   \<and> timers (snd (setBulkOpRunning h True w))
       = (if storage_set_error h BULK_RUNNING True = None
          then [(Suc (timerCount w), clock w + BULK_OP_TIMEOUT_MS)]
          else [])
   \<and> (storage_set_error h BULK_RUNNING True = None \<longrightarrow>
        bulkOpTimeoutId (snd (setBulkOpRunning h True w)) = Some (Suc (timerCount w))
      \<and> storage (snd (setBulkOpRunning h True w)) BULK_RUNNING = Some True
      \<and> (\<forall>d < BULK_OP_TIMEOUT_MS.
            elapse d (snd (setBulkOpRunning h True w))
              = (snd (setBulkOpRunning h True w))\<lparr> clock := clock w + d \<rparr>)
      \<and> dueTimers BULK_OP_TIMEOUT_MS (snd (setBulkOpRunning h True w))
          = [(Suc (timerCount w), clock w + BULK_OP_TIMEOUT_MS)])
   \<and> (storage_set_error h BULK_RUNNING True = None
        \<and> storage_set_error h' BULK_RUNNING False = None \<longrightarrow>
        storage (snd (bulkOpTimeoutCallback_resume h'
                   (elapse BULK_OP_TIMEOUT_MS (snd (setBulkOpRunning h True w))))) BULK_RUNNING
          = Some False
      \<and> resetBroadcasts (snd (bulkOpTimeoutCallback_resume h'
                            (elapse BULK_OP_TIMEOUT_MS (snd (setBulkOpRunning h True w)))))
          = resetBroadcasts (snd (setBulkOpRunning h True w)) + 1
      \<and> timers (snd (bulkOpTimeoutCallback_resume h'
                   (elapse BULK_OP_TIMEOUT_MS (snd (setBulkOpRunning h True w))))) = []
      \<and> watchdogInv (snd (bulkOpTimeoutCallback_resume h'
                   (elapse BULK_OP_TIMEOUT_MS (snd (setBulkOpRunning h True w))))))
   \<and> fst (bulkOpTimeoutCallback_resume h' w') = Inr ()"
proof -
  define w1 where "w1 = snd (setBulkOpRunning h True w)"
  have r: "fst (setBulkOpRunning h True w) = Inr ()"
    by (auto simp: setBulkOpRunning_def Let_def split: option.splits sum.splits prod.splits)
  have t: "timers w1 = (if storage_set_error h BULK_RUNNING True = None
                        then [(Suc (timerCount w), clock w + BULK_OP_TIMEOUT_MS)] else [])"
    using setBulkOpRunning_timers [OF inv, of h True] by (simp add: w1_def)
  have c1: "clock w1 = clock w"
    using setBulkOpRunning_timers [OF inv, of h True] by (simp add: w1_def)
  have inv1: "watchdogInv w1"
    unfolding w1_def by (rule watchdogInv_setBulkOpRunning [OF inv])
  have armed: "bulkOpTimeoutId w1 = Some (Suc (timerCount w)) \<and> storage w1 BULK_RUNNING = Some True
      \<and> (\<forall>d < BULK_OP_TIMEOUT_MS. elapse d w1 = w1\<lparr> clock := clock w + d \<rparr>)
      \<and> dueTimers BULK_OP_TIMEOUT_MS w1 = [(Suc (timerCount w), clock w + BULK_OP_TIMEOUT_MS)]"
    if ok: "storage_set_error h BULK_RUNNING True = None"
  proof -
    have t1: "timers w1 = [(Suc (timerCount w), clock w + BULK_OP_TIMEOUT_MS)]"
      using t ok by simp
    have "bulkOpTimeoutId w1 = Some (Suc (timerCount w))"
      using setBulkOpRunning_timers [OF inv, of h True] ok by (simp add: w1_def)
    moreover have "storage w1 BULK_RUNNING = Some True"
      unfolding w1_def by (rule setBulkOpRunning_persisted [OF ok])
    moreover have "\<forall>d < BULK_OP_TIMEOUT_MS. elapse d w1 = w1\<lparr> clock := clock w + d \<rparr>"
      using elapse_early [OF t1] by (simp add: c1)
    moreover have "dueTimers BULK_OP_TIMEOUT_MS w1 = [(Suc (timerCount w), clock w + BULK_OP_TIMEOUT_MS)]"
      by (simp add: dueTimers_def t1 c1)
    ultimately show ?thesis by simp
  qed
  have fires: "storage (snd (bulkOpTimeoutCallback_resume h' (elapse BULK_OP_TIMEOUT_MS w1))) BULK_RUNNING
        = Some False
      \<and> resetBroadcasts (snd (bulkOpTimeoutCallback_resume h' (elapse BULK_OP_TIMEOUT_MS w1)))
        = resetBroadcasts w1 + 1
      \<and> timers (snd (bulkOpTimeoutCallback_resume h' (elapse BULK_OP_TIMEOUT_MS w1))) = []
      \<and> watchdogInv (snd (bulkOpTimeoutCallback_resume h' (elapse BULK_OP_TIMEOUT_MS w1)))"
    if ok: "storage_set_error h BULK_RUNNING True = None"
      and ok': "storage_set_error h' BULK_RUNNING False = None"
  proof -
    have t1: "timers w1 = [(Suc (timerCount w), clock w + BULK_OP_TIMEOUT_MS)]"
      using t ok by simp
    have fire: "elapse BULK_OP_TIMEOUT_MS w1
        = bulkOpTimeoutCallback_start (w1\<lparr> clock := clock w1 + BULK_OP_TIMEOUT_MS, timers := [] \<rparr>)"
      by (rule elapse_due [OF t1]) (simp add: c1)
    have e: "timers (elapse BULK_OP_TIMEOUT_MS w1) = []
        \<and> trace (elapse BULK_OP_TIMEOUT_MS w1) = trace w1 @ [StorageSet BULK_RUNNING False]"
      by (simp add: fire bulkOpTimeoutCallback_start_def emit_def)
    have i: "watchdogInv (snd (bulkOpTimeoutCallback_resume h' (elapse BULK_OP_TIMEOUT_MS w1)))"
      by (rule watchdogInv_bulkOpTimeoutCallback_resume [OF watchdogInv_elapse [OF inv1]])
         (simp add: e)
    show ?thesis
      using bulkOpTimeoutCallback_resume_resolved [OF ok', of "elapse BULK_OP_TIMEOUT_MS w1"] e i
      by (simp add: resetBroadcasts_def)
  qed
  have swallowed: "fst (bulkOpTimeoutCallback_resume h' w') = Inr ()"
    by (rule bulkOpTimeoutCallback_resume_swallows)
  show ?thesis
    unfolding w1_def [symmetric]
    using r t armed fires swallowed by simp
qed

theorem watchdog_arms_and_fires_witness:
  "watchdogInv (elapse 1000 armedWorld)
   \<and> storage_set_error quietHost BULK_RUNNING True = None
   \<and> storage_set_error deafHost BULK_RUNNING False = None
   \<and> runtime_sendMessage_error deafHost ''MSG_resetBulkOpRunning'' \<noteq> None
   \<and> timers (snd (setBulkOpRunning quietHost True (elapse 1000 armedWorld)))
       = [(2, 1000 + BULK_OP_TIMEOUT_MS)]
   \<and> storage (snd (setBulkOpRunning quietHost True (elapse 1000 armedWorld))) BULK_RUNNING = Some True
   \<and> 5000 < BULK_OP_TIMEOUT_MS
   \<and> elapse 5000 (snd (setBulkOpRunning quietHost True (elapse 1000 armedWorld)))
       = (snd (setBulkOpRunning quietHost True (elapse 1000 armedWorld)))\<lparr> clock := 6000 \<rparr>
   \<and> storage (snd (bulkOpTimeoutCallback_resume deafHost
        (elapse BULK_OP_TIMEOUT_MS (snd (setBulkOpRunning quietHost True (elapse 1000 armedWorld))))))
        BULK_RUNNING = Some False
   \<and> resetBroadcasts (snd (bulkOpTimeoutCallback_resume deafHost
        (elapse BULK_OP_TIMEOUT_MS (snd (setBulkOpRunning quietHost True (elapse 1000 armedWorld))))))
       = 1
   \<and> fst (bulkOpTimeoutCallback_resume deafHost armedWorld) = Inr ()"
proof -
  have a: "timers armedWorld = [(1, BULK_OP_TIMEOUT_MS)] \<and> bulkOpTimeoutId armedWorld = Some 1
      \<and> clock armedWorld = 0 \<and> timerCount armedWorld = 1
      \<and> trace armedWorld = [StorageSet BULK_RUNNING True, SetTimeout 1 BULK_OP_TIMEOUT_MS]"
    by (simp add: armedWorld_def quietHost_def initial_def setBulkOpRunning_def setTimeout_def
        chrome_storage_local_set_def emit_def Let_def timeoutOf_def BULK_OP_TIMEOUT_MS_def)
  have early: "elapse 1000 armedWorld = armedWorld\<lparr> clock := 1000 \<rparr>"
    using elapse_early [of armedWorld 1 BULK_OP_TIMEOUT_MS 1000] a
    by (simp add: BULK_OP_TIMEOUT_MS_def)
  have inv: "watchdogInv (elapse 1000 armedWorld)"
    using a by (simp add: early watchdogInv_def)
  have ok: "storage_set_error quietHost BULK_RUNNING True = None"
    by (simp add: quietHost_def)
  have ok': "storage_set_error deafHost BULK_RUNNING False = None"
    by (simp add: deafHost_def quietHost_def)
  have deaf: "runtime_sendMessage_error deafHost ''MSG_resetBulkOpRunning'' \<noteq> None"
    by (simp add: deafHost_def)
  have b0: "resetBroadcasts (snd (setBulkOpRunning quietHost True (elapse 1000 armedWorld))) = 0"
    using a
    by (simp add: early resetBroadcasts_def setBulkOpRunning_def setTimeout_def clearTimeout_def
        chrome_storage_local_set_def emit_def Let_def quietHost_def)
  have five: "5000 < BULK_OP_TIMEOUT_MS"
    by (simp add: BULK_OP_TIMEOUT_MS_def)
  show ?thesis
    using watchdog_arms_and_fires [OF inv, of quietHost deafHost armedWorld] ok ok' deaf inv a b0 five
    by (simp add: early)
qed

text \<open>
  As the specification words it, for every call, the property fails in two ways. When
  the storage write rejects, the call made in a world with the flag true and its watchdog
  armed cancels that watchdog and arms none: after 10 minutes no timer has fired and the
  flag is still true. When two calls overlap, each clears no timer and each arms one: two
  timers are armed, after 10 minutes both fire and two reset broadcasts are attempted; and
  a later call that overlaps with nothing cancels the second of them only.
\<close>

theorem watchdog_not_armed_counterexample:
  "storage (snd (setBulkOpRunning failingStorageHost True initial)) BULK_RUNNING \<noteq> Some True
   \<and> timers (snd (setBulkOpRunning failingStorageHost True initial)) = []
   \<and> timers armedWorld = [(1, BULK_OP_TIMEOUT_MS)]
   \<and> timers (snd (setBulkOpRunning failingStorageHost True armedWorld)) = []
   \<and> dueTimers BULK_OP_TIMEOUT_MS (snd (setBulkOpRunning failingStorageHost True armedWorld)) = []
   \<and> storage (elapse BULK_OP_TIMEOUT_MS
                (snd (setBulkOpRunning failingStorageHost True armedWorld))) BULK_RUNNING = Some True
   \<and> resetBroadcasts (elapse BULK_OP_TIMEOUT_MS
                         (snd (setBulkOpRunning failingStorageHost True armedWorld))) = 0
   \<and> timers overlappedWorld = [(1, BULK_OP_TIMEOUT_MS), (2, BULK_OP_TIMEOUT_MS)]
   \<and> \<not> watchdogInv overlappedWorld
   \<and> dueTimers BULK_OP_TIMEOUT_MS overlappedWorld
       = [(1, BULK_OP_TIMEOUT_MS), (2, BULK_OP_TIMEOUT_MS)]
   \<and> resetBroadcasts overlappedWorld = 0
   \<and> resetBroadcasts (snd (bulkOpTimeoutCallback_resume quietHost
        (snd (bulkOpTimeoutCallback_resume quietHost (elapse BULK_OP_TIMEOUT_MS overlappedWorld)))))
       = 2
   \<and> timers (snd (setBulkOpRunning quietHost True (elapse 1000 overlappedWorld)))
       = [(1, BULK_OP_TIMEOUT_MS), (3, 1000 + BULK_OP_TIMEOUT_MS)]"
proof -
  have a: "timers armedWorld = [(1, BULK_OP_TIMEOUT_MS)] \<and> bulkOpTimeoutId armedWorld = Some 1
      \<and> clock armedWorld = 0 \<and> storage armedWorld BULK_RUNNING = Some True
      \<and> trace armedWorld = [StorageSet BULK_RUNNING True, SetTimeout 1 BULK_OP_TIMEOUT_MS]"
    by (simp add: armedWorld_def quietHost_def initial_def setBulkOpRunning_def setTimeout_def
        chrome_storage_local_set_def emit_def Let_def timeoutOf_def BULK_OP_TIMEOUT_MS_def)
  have f0: "storage (snd (setBulkOpRunning failingStorageHost True initial)) BULK_RUNNING \<noteq> Some True
      \<and> timers (snd (setBulkOpRunning failingStorageHost True initial)) = []"
    by (simp add: failingStorageHost_def initial_def setBulkOpRunning_def
        chrome_storage_local_set_def emit_def Let_def)
  define wf where "wf = snd (setBulkOpRunning failingStorageHost True armedWorld)"
  have f: "timers wf = [] \<and> storage wf BULK_RUNNING = Some True
      \<and> trace wf = trace armedWorld @ [ClearTimeout 1, StorageSet BULK_RUNNING True]"
    using a
    by (simp add: wf_def failingStorageHost_def setBulkOpRunning_def clearTimeout_def
        chrome_storage_local_set_def emit_def Let_def)
  have fe: "elapse BULK_OP_TIMEOUT_MS wf = wf\<lparr> clock := clock wf + BULK_OP_TIMEOUT_MS \<rparr>"
    using f by (simp add: elapse_none)
  have f1: "dueTimers BULK_OP_TIMEOUT_MS wf = []
      \<and> storage (elapse BULK_OP_TIMEOUT_MS wf) BULK_RUNNING = Some True
      \<and> resetBroadcasts (elapse BULK_OP_TIMEOUT_MS wf) = 0"
    using f a by (simp add: fe dueTimers_def resetBroadcasts_def)
  have o: "timers overlappedWorld = [(1, BULK_OP_TIMEOUT_MS), (2, BULK_OP_TIMEOUT_MS)]
      \<and> bulkOpTimeoutId overlappedWorld = Some 2 \<and> clock overlappedWorld = 0
      \<and> timerCount overlappedWorld = 2
      \<and> trace overlappedWorld
          = [StorageSet BULK_RUNNING True, StorageSet BULK_RUNNING True,
             SetTimeout 1 BULK_OP_TIMEOUT_MS, SetTimeout 2 BULK_OP_TIMEOUT_MS]"
    by (simp add: overlappedWorld_def quietHost_def initial_def setBulkOpRunning_start_def
        setBulkOpRunning_resume_def setTimeout_def emit_def Let_def timeoutOf_def
        BULK_OP_TIMEOUT_MS_def)
  have o1: "\<not> watchdogInv overlappedWorld"
    using o by (simp add: watchdogInv_def)
  have o2: "dueTimers BULK_OP_TIMEOUT_MS overlappedWorld
       = [(1, BULK_OP_TIMEOUT_MS), (2, BULK_OP_TIMEOUT_MS)]"
    using o by (simp add: dueTimers_def)
  have o3: "resetBroadcasts overlappedWorld = 0"
    using o by (simp add: resetBroadcasts_def)
  have o4: "trace (elapse BULK_OP_TIMEOUT_MS overlappedWorld)
      = trace overlappedWorld @ [StorageSet BULK_RUNNING False, StorageSet BULK_RUNNING False]"
    using o by (simp add: elapse_def dueTimers_def bulkOpTimeoutCallback_start_def emit_def)
  have q: "storage_set_error quietHost BULK_RUNNING False = None"
    by (simp add: quietHost_def)
  have o5: "resetBroadcasts (snd (bulkOpTimeoutCallback_resume quietHost
        (snd (bulkOpTimeoutCallback_resume quietHost (elapse BULK_OP_TIMEOUT_MS overlappedWorld)))))
       = 2"
    using bulkOpTimeoutCallback_resume_resolved [OF q] o o4
    by (simp add: resetBroadcasts_def)
  have oe: "elapse 1000 overlappedWorld = overlappedWorld\<lparr> clock := 1000 \<rparr>"
    using o by (cases overlappedWorld) (simp add: elapse_def dueTimers_def BULK_OP_TIMEOUT_MS_def)
  have o6: "timers (snd (setBulkOpRunning quietHost True (elapse 1000 overlappedWorld)))
       = [(1, BULK_OP_TIMEOUT_MS), (3, 1000 + BULK_OP_TIMEOUT_MS)]"
    using o
    by (simp add: oe setBulkOpRunning_def setTimeout_def clearTimeout_def
        chrome_storage_local_set_def emit_def Let_def quietHost_def)
  show ?thesis
    using a f0 f f1 o o1 o2 o3 o5 o6 by (simp add: wf_def)
qed

section \<open>Properties of the batched reloader\<close>

lemma chunks_Nil [simp]: "chunks n [] = []"
  by (simp add: chunks.simps)

lemma chunks_eq_Nil: "0 < n \<Longrightarrow> chunks n xs = [] \<longleftrightarrow> xs = []"
  by (subst chunks.simps) simp

lemma chunks_step: "0 < n \<Longrightarrow> xs \<noteq> [] \<Longrightarrow> chunks n xs = take n xs # chunks n (drop n xs)"
  by (subst chunks.simps) simp

lemma concat_chunks: "0 < n \<Longrightarrow> concat (chunks n xs) = xs"
proof (induction "length xs" arbitrary: xs rule: less_induct)
  case less
  show ?case
  proof (cases "xs = []")
    case True
    then show ?thesis by simp
  next
    case False
    then have "length (drop n xs) < length xs"
      using less.prems by simp
    then have "concat (chunks n (drop n xs)) = drop n xs"
      using less by blast
    then show ?thesis
      using False less.prems by (simp add: chunks_step)
  qed
qed

lemma chunks_member:
  "0 < n \<Longrightarrow> c \<in> set (chunks n xs) \<Longrightarrow> c \<noteq> [] \<and> length c \<le> n"
proof (induction "length xs" arbitrary: xs rule: less_induct)
  case less
  show ?case
  proof (cases "xs = []")
    case True
    with less.prems show ?thesis by simp
  next
    case False
    then have "c = take n xs \<or> c \<in> set (chunks n (drop n xs))"
      using less.prems by (simp add: chunks_step)
    moreover have "length (drop n xs) < length xs"
      using False less.prems by simp
    ultimately show ?thesis
      using less.hyps [of "drop n xs"] less.prems(1) False by auto
  qed
qed

lemma chunks_nth:
  "0 < n \<Longrightarrow> k < length (chunks n xs) \<Longrightarrow> chunks n xs ! k = take n (drop (k * n) xs)"
proof (induction k arbitrary: xs)
  case 0
  then have "xs \<noteq> []"
    by (cases "xs = []") simp_all
  then show ?case
    using 0 by (simp add: chunks_step)
next
  case (Suc k)
  then have ne: "xs \<noteq> []"
    by (cases "xs = []") simp_all
  then have "chunks n xs = take n xs # chunks n (drop n xs)"
    using Suc.prems by (simp add: chunks_step)
  then show ?case
    using Suc by (simp add: add.commute)
qed

text \<open>With a positive batch size the loop returns, and it is the chunk-wise run.\<close>

lemma reloadLoop_chunks:
  assumes b: "0 < b"
  shows "reloadLoop h v b p d i st = Some (runChunks h p d (chunks b (drop i v)) st)"
proof (induction "length v - i" arbitrary: i st rule: less_induct)
  case less
  show ?case
  proof (cases "i < length v")
    case False
    then show ?thesis by (subst reloadLoop.simps) simp
  next
    case True
    define st1 where "st1 = runBatch h p (take b (drop i v)) st"
    define st2 where "st2 = (if i + b < length v \<and> d > 0 then sleep h d st1 else st1)"
    have ne: "drop i v \<noteq> []"
      using True by simp
    have m: "length v - (i + b) < length v - i"
      using True b by arith
    have more: "(chunks b (drop (i + b) v) \<noteq> []) = (i + b < length v)"
      using b by (auto simp: chunks_eq_Nil)
    have "reloadLoop h v b p d i st = reloadLoop h v b p d (i + b) st2"
      by (subst reloadLoop.simps) (simp add: True Let_def slice_def st1_def st2_def)
    also have "\<dots> = Some (runChunks h p d (chunks b (drop (i + b) v)) st2)"
      by (rule less [OF m])
    also have "runChunks h p d (chunks b (drop (i + b) v)) st2
        = runChunks h p d (take b (drop i v) # chunks b (drop (i + b) v)) st"
      by (simp add: Let_def more st1_def st2_def)
    also have "take b (drop i v) # chunks b (drop (i + b) v) = chunks b (drop i v)"
      by (simp add: chunks_step [OF b ne] add.commute)
    finally show ?thesis .
  qed
qed

lemma reloadSuspendedTabsBatched_run:
  "0 < b \<Longrightarrow>
   reloadSuspendedTabsBatched h tabs b p d
     = Some (runChunks h p d (chunks b (filter validTab tabs))
               \<lparr> processed = 0, errors = 0, durationMs = 0, steps = [] \<rparr>)"
  using reloadLoop_chunks [of b h "filter validTab tabs" p d 0]
  by (simp add: reloadSuspendedTabsBatched_def Let_def)

text \<open>With batch size 0 and a valid descriptor left, the loop has no result.\<close>

lemma reloadLoop_diverges:
  assumes "reloadLoop h v b p d i st = Some y"
  shows "\<not> (b = 0 \<and> i < length v)"
proof (rule reloadLoop.raw_induct
    [where P = "\<lambda>h v b p d i st y. \<not> (b = 0 \<and> i < length v)", OF _ assms])
  fix f h v b p d i st y
  assume IH: "\<And>h v b p d i st y. f h v b p d i st = Some y \<Longrightarrow> \<not> (b = 0 \<and> i < length v)"
    and step: "(if i < length v
                then let batch = slice v i (i + b); st1 = runBatch h p batch st
                     in Let (if i + b < length v \<and> 0 < d then sleep h d st1 else st1)
                          (f h v b p d (i + b))
                else Some st) = Some y"
  show "\<not> (b = 0 \<and> i < length v)"
  proof
    assume a: "b = 0 \<and> i < length v"
    with step obtain st' where "f h v b p d (i + b) st' = Some y"
      by (simp add: Let_def)
    from IH [OF this] a show False by simp
  qed
qed

lemma fold_runMember:
  "steps (fold (runMember h) c st) = steps st
   \<and> processed (fold (runMember h) c st) = processed st + length (filter (reloaded h) c)
   \<and> errors (fold (runMember h) c st) = errors st + length (filter (\<lambda>t. \<not> reloaded h t) c)
   \<and> durationMs (fold (runMember h) c st) = durationMs st"
  by (induction c arbitrary: st) (auto simp: runMember_def reloaded_def split: option.splits)

lemma runBatch_job:
  "steps (runBatch h p c st) = steps st @ [Batch (map tab_id c)]
   \<and> processed (runBatch h p c st) = processed st + length (filter (reloaded h) c)
   \<and> errors (runBatch h p c st) = errors st + length (filter (\<lambda>t. \<not> reloaded h t) c)
   \<and> durationMs (runBatch h p c st) = durationMs st + batchTime h p c"
  by (simp add: runBatch_def Let_def fold_runMember)

lemma job_sleep [simp]:
  "steps (sleep h d st) = steps st @ [Delay d]"
  "processed (sleep h d st) = processed st"
  "errors (sleep h d st) = errors st"
  "durationMs (sleep h d st) = durationMs st + timeoutOf h d"
  by (simp_all add: sleep_def)

lemma runChunks_counts:
  "steps (runChunks h p d cs st) = steps st @ batchSteps d cs
   \<and> processed (runChunks h p d cs st) = processed st + length (filter (reloaded h) (concat cs))
   \<and> errors (runChunks h p d cs st) = errors st + length (filter (\<lambda>t. \<not> reloaded h t) (concat cs))"
  by (induction cs arbitrary: st) (simp_all add: Let_def runBatch_job)

lemma runChunks_duration:
  "durationMs st + (length cs - 1) * timeoutOf h d \<le> durationMs (runChunks h p d cs st)"
proof (induction cs arbitrary: st)
  case Nil
  show ?case by simp
next
  case (Cons c cs)
  define st2 where "st2 = (if cs \<noteq> [] \<and> d > 0 then sleep h d (runBatch h p c st) else runBatch h p c st)"
  have run: "runChunks h p d (c # cs) st = runChunks h p d cs st2"
    by (simp add: Let_def st2_def)
  have z: "d = 0 \<Longrightarrow> timeoutOf h d = 0"
    by (simp add: timeoutOf_def)
  have "durationMs st + (length (c # cs) - 1) * timeoutOf h d
      \<le> durationMs st2 + (length cs - 1) * timeoutOf h d"
    using z by (cases cs) (auto simp: st2_def runBatch_job)
  also have "\<dots> \<le> durationMs (runChunks h p d cs st2)"
    by (rule Cons.IH)
  finally show ?case
    by (simp only: run)
qed

text \<open>
  C4, as the code has it: for a batch size of at least 1, and for the time bound an
  inter-batch delay below \<open>2^31\<close> ms. The function returns. Its steps are those of the
  consecutive chunks of the descriptors with a valid id (chunk \<open>k\<close> is the next
  \<open>batchSize\<close> descriptors after the first \<open>k * batchSize\<close>): one batch per chunk, each
  settled before the next begins, and a wait after every chunk but the last; every
  descriptor with a valid id is a member of one batch and its reload is attempted once,
  whether other reloads failed or not. The value returned, \<open>processed\<close>, counts the
  reloads that resolved and \<open>errors\<close> the others; the time taken is at least one wait per
  chunk but the last.
\<close>

theorem reloadSuspendedTabsBatched_chunked:
  assumes "0 < batchSize"
  shows "\<exists>j. reloadSuspendedTabsBatched h tabs batchSize perTabDelayMs batchDelayMs = Some j
     \<and> steps j = batchSteps batchDelayMs (chunks batchSize (filter validTab tabs))
     \<and> concat (chunks batchSize (filter validTab tabs)) = filter validTab tabs
     \<and> (\<forall>k < length (chunks batchSize (filter validTab tabs)).
           chunks batchSize (filter validTab tabs) ! k
             = take batchSize (drop (k * batchSize) (filter validTab tabs)))
     \<and> processed j = length (filter (reloaded h) (filter validTab tabs))
     \<and> errors j = length (filter (\<lambda>t. \<not> reloaded h t) (filter validTab tabs))
     \<and> processed j + errors j = length (filter validTab tabs)
     \<and> (length (chunks batchSize (filter validTab tabs)) - 1) * timeoutOf h batchDelayMs
          \<le> durationMs j
     \<and> (batchDelayMs < 2147483648 \<longrightarrow>
          (length (chunks batchSize (filter validTab tabs)) - 1) * batchDelayMs \<le> durationMs j)"
proof -
  let ?v = "filter validTab tabs"
  let ?st = "\<lparr> processed = 0, errors = 0, durationMs = 0, steps = [] \<rparr>"
  let ?j = "runChunks h perTabDelayMs batchDelayMs (chunks batchSize ?v) ?st"
  have run: "reloadSuspendedTabsBatched h tabs batchSize perTabDelayMs batchDelayMs = Some ?j"
    by (rule reloadSuspendedTabsBatched_run [OF assms])
  have c: "concat (chunks batchSize ?v) = ?v"
    by (rule concat_chunks [OF assms])
  have total: "length (filter (reloaded h) ?v) + length (filter (\<lambda>t. \<not> reloaded h t) ?v) = length ?v"
    by (rule sum_length_filter_compl)
  have n: "\<forall>k < length (chunks batchSize ?v).
      chunks batchSize ?v ! k = take batchSize (drop (k * batchSize) ?v)"
    using chunks_nth [OF assms] by blast
  have d: "(length (chunks batchSize ?v) - 1) * timeoutOf h batchDelayMs \<le> durationMs ?j"
    using runChunks_duration [of ?st "chunks batchSize ?v" h batchDelayMs perTabDelayMs] by simp
  have d': "batchDelayMs < 2147483648 \<longrightarrow>
      (length (chunks batchSize ?v) - 1) * batchDelayMs \<le> durationMs ?j"
    using d by (cases "batchDelayMs < 2147483648") (simp_all add: timeoutOf_def)
  show ?thesis
    using runChunks_counts [of h perTabDelayMs batchDelayMs "chunks batchSize ?v" ?st] total n d d'
    by (simp add: run c)
qed

theorem reloadSuspendedTabsBatched_chunked_witness:
  "(0::nat) < 3 \<and> (1200::nat) < 2147483648
   \<and> filter validTab nineDescriptors = sevenTabs
   \<and> map length (chunks 3 (filter validTab nineDescriptors)) = [3, 3, 1]
   \<and> (\<exists>j. reloadSuspendedTabsBatched flakyHost nineDescriptors 3 1000 1200 = Some j
        \<and> steps j = [Batch [Some 1, Some 2, Some 3], Delay 1200,
                     Batch [Some 4, Some 5, Some 6], Delay 1200,
                     Batch [Some 7]]
        \<and> processed j = 6 \<and> errors j = 1 \<and> 2 * 1200 \<le> durationMs j)"
proof -
  have three: "(0::nat) < 3"
    by simp
  have v: "filter validTab nineDescriptors = sevenTabs"
    by (simp add: nineDescriptors_def sevenTabs_def validTab_def tabOfId_def)
  have c: "chunks 3 sevenTabs = [map tabOfId [1, 2, 3], map tabOfId [4, 5, 6], map tabOfId [7]]"
    by (simp add: sevenTabs_def chunks.simps)
  obtain j where j: "reloadSuspendedTabsBatched flakyHost nineDescriptors 3 1000 1200 = Some j"
    and s: "steps j = batchSteps 1200 (chunks 3 (filter validTab nineDescriptors))"
    and p: "processed j = length (filter (reloaded flakyHost) (filter validTab nineDescriptors))"
    and e: "errors j = length (filter (\<lambda>t. \<not> reloaded flakyHost t) (filter validTab nineDescriptors))"
    and d: "(1200::nat) < 2147483648 \<longrightarrow>
        (length (chunks 3 (filter validTab nineDescriptors)) - 1) * 1200 \<le> durationMs j"
    using reloadSuspendedTabsBatched_chunked [OF three, of flakyHost nineDescriptors 1000 1200]
    by blast
  have "steps j = [Batch [Some 1, Some 2, Some 3], Delay 1200,
                   Batch [Some 4, Some 5, Some 6], Delay 1200,
                   Batch [Some 7]]"
    by (simp add: s v c tabOfId_def)
  moreover have "processed j = 6"
    unfolding p v by (simp add: sevenTabs_def tabOfId_def reloaded_def flakyHost_def)
  moreover have "errors j = 1"
    unfolding e v by (simp add: sevenTabs_def tabOfId_def reloaded_def flakyHost_def)
  moreover have "2 * 1200 \<le> durationMs j"
    using d by (simp add: v c)
  moreover have "map length (chunks 3 (filter validTab nineDescriptors)) = [3, 3, 1]"
    by (simp add: v c)
  ultimately show ?thesis
    using j v by simp
qed

text \<open>
  As the specification words it, for every batch size and every delay, the property fails
  twice. At batch size 0, with one valid descriptor, the loop index never grows and the
  function does not return. At an inter-batch delay of \<open>2^31\<close> ms, which the timer of a
  browser does not wait, seven descriptors in batches of 3 are done after 1332 ms, not
  after two delays.
\<close>

theorem reloadSuspendedTabsBatched_counterexample:
  "filter validTab [tabOfId 1] = [tabOfId 1]
   \<and> reloadSuspendedTabsBatched quietHost [tabOfId 1] 0 1000 1200 = None
   \<and> map_option steps (reloadSuspendedTabsBatched quietHost sevenTabs 3 1000 2147483648)
       = Some [Batch [Some 1, Some 2, Some 3], Delay 2147483648,
               Batch [Some 4, Some 5, Some 6], Delay 2147483648,
               Batch [Some 7]]
   \<and> map_option durationMs (reloadSuspendedTabsBatched quietHost sevenTabs 3 1000 2147483648)
       = Some 1332
   \<and> (1332::nat) < 2 * 2147483648"
proof -
  have "reloadLoop quietHost [tabOfId 1] 0 1000 1200 0 st = None" for st
    using reloadLoop_diverges [of quietHost "[tabOfId 1]" 0 1000 1200 0 st]
    by (cases "reloadLoop quietHost [tabOfId 1] 0 1000 1200 0 st") auto
  then have zero: "filter validTab [tabOfId 1] = [tabOfId 1]
      \<and> reloadSuspendedTabsBatched quietHost [tabOfId 1] 0 1000 1200 = None"
    by (simp add: reloadSuspendedTabsBatched_def validTab_def tabOfId_def)
  have v: "filter validTab sevenTabs = sevenTabs"
    by (simp add: sevenTabs_def validTab_def tabOfId_def)
  have c: "chunks 3 sevenTabs = [map tabOfId [1, 2, 3], map tabOfId [4, 5, 6], map tabOfId [7]]"
    by (simp add: sevenTabs_def chunks.simps)
  have o: "timeoutOf quietHost 2147483648 = 0"
    by (simp add: timeoutOf_def quietHost_def)
  have b3: "batchTime quietHost 1000 [tabOfId a, tabOfId b, tabOfId c'] = 666" for a b c'
    by (simp add: batchTime_def memberTime_def stagger_def timeoutOf_def quietHost_def)
  have b1: "batchTime quietHost 1000 [tabOfId a] = 0" for a
    by (simp add: batchTime_def memberTime_def stagger_def quietHost_def)
  have run: "reloadSuspendedTabsBatched quietHost sevenTabs 3 1000 2147483648
      = Some (runChunks quietHost 1000 2147483648 (chunks 3 sevenTabs)
                \<lparr> processed = 0, errors = 0, durationMs = 0, steps = [] \<rparr>)"
    using reloadSuspendedTabsBatched_run [of 3 quietHost sevenTabs 1000 2147483648]
    by (simp add: v)
  have "steps (runChunks quietHost 1000 2147483648 (chunks 3 sevenTabs)
                \<lparr> processed = 0, errors = 0, durationMs = 0, steps = [] \<rparr>)
      = batchSteps 2147483648 (chunks 3 sevenTabs)"
    using runChunks_counts [of quietHost 1000 2147483648 "chunks 3 sevenTabs"
        "\<lparr> processed = 0, errors = 0, durationMs = 0, steps = [] \<rparr>"]
    by simp
  also have "\<dots> = [Batch [Some 1, Some 2, Some 3], Delay 2147483648,
         Batch [Some 4, Some 5, Some 6], Delay 2147483648, Batch [Some 7]]"
    by (simp add: c tabOfId_def)
  finally have st: "steps (runChunks quietHost 1000 2147483648 (chunks 3 sevenTabs)
                \<lparr> processed = 0, errors = 0, durationMs = 0, steps = [] \<rparr>)
      = [Batch [Some 1, Some 2, Some 3], Delay 2147483648,
         Batch [Some 4, Some 5, Some 6], Delay 2147483648, Batch [Some 7]]" .
  have du: "durationMs (runChunks quietHost 1000 2147483648 (chunks 3 sevenTabs)
                \<lparr> processed = 0, errors = 0, durationMs = 0, steps = [] \<rparr>) = 1332"
    unfolding c by (simp add: Let_def runBatch_job o b3 b1)
  show ?thesis
    using zero by (simp add: run st du)
qed

section \<open>Properties of the message router\<close>

lemma reloads_batchSteps:
  "concat (map (\<lambda>s. case s of Batch ids \<Rightarrow> map TabsReload ids | Delay ms \<Rightarrow> []) (batchSteps d cs))
     = map (\<lambda>t. TabsReload (tab_id t)) (concat cs)"
  by (induction cs) simp_all

lemma refreshFinally_world:
  "trace (refreshFinally h w)
     = trace w @ [StorageSet FAVICON_REFRESH_RUNNING False,
                  RuntimeSendMessage (MSG_FAVICON_REFRESH_DONE h) None]
   \<and> (storage_set_error h FAVICON_REFRESH_RUNNING False = None \<longrightarrow>
        storage (refreshFinally h w) FAVICON_REFRESH_RUNNING = Some False)"
  by (auto simp: refreshFinally_def broadcastFaviconRefreshProgress_def setFaviconRefreshRunning_def
      chrome_storage_local_set_def emit_def Let_def split: option.splits)

lemma refreshStart_trace:
  "trace (broadcastFaviconRefreshProgress h True (snd (setFaviconRefreshRunning h True w)))
     = trace w @ [StorageSet FAVICON_REFRESH_RUNNING True,
                  RuntimeSendMessage (MSG_FAVICON_REFRESH_PROGRESS h) None]"
  by (auto simp: broadcastFaviconRefreshProgress_def setFaviconRefreshRunning_def
      chrome_storage_local_set_def emit_def Let_def split: option.splits)

lemma getFaviconRefreshRunning_cases:
  "getFaviconRefreshRunning h w = Inr True \<or> getFaviconRefreshRunning h w = Inr False"
  by (auto simp: getFaviconRefreshRunning_def split: sum.splits)

text \<open>
  C8, as the code has it. The handler of a favicon refresh always settles, with one
  response. When the flag reads true the response is
  \<^verbatim>\<open>{success: false, error: 'Favicon refresh already running'}\<close> and nothing else happens.
  Otherwise the handler writes the flag true, broadcasts the start, reloads every
  suspended tab with a valid id, and on both ways out writes the flag false (it reads false
  afterwards when that write resolves) and broadcasts the end. The response is
  \<^verbatim>\<open>{success: true, count, total}\<close> when the tab query resolves and \<^verbatim>\<open>{error: message}\<close>,
  with no \<^verbatim>\<open>success\<close> field, when it rejects.
\<close>

theorem refreshAllSuspendedFavicons_paths:
  "\<exists>rw. refreshAllSuspendedFaviconsBody h w = Some rw
     \<and> snd (handleAsyncMessage rw) = snd rw
     \<and> (getFaviconRefreshRunning h w = Inr True \<longrightarrow>
          handleAsyncMessage rw = ([FailureResp ''Favicon refresh already running''], w))
     \<and> (getFaviconRefreshRunning h w \<noteq> Inr True \<longrightarrow>
          trace (snd rw)
            = trace w @ [StorageSet FAVICON_REFRESH_RUNNING True,
                         RuntimeSendMessage (MSG_FAVICON_REFRESH_PROGRESS h) None]
              @ (case tabs_query_suspended h of
                   Inl e \<Rightarrow> []
                 | Inr tabs \<Rightarrow> map (\<lambda>t. TabsReload (tab_id t)) (filter validTab tabs))
              @ [StorageSet FAVICON_REFRESH_RUNNING False,
                 RuntimeSendMessage (MSG_FAVICON_REFRESH_DONE h) None]
        \<and> (storage_set_error h FAVICON_REFRESH_RUNNING False = None \<longrightarrow>
             storage (snd rw) FAVICON_REFRESH_RUNNING = Some False)
        \<and> fst (handleAsyncMessage rw)
            = (case tabs_query_suspended h of
                 Inl e \<Rightarrow> [ErrorResp (if message e = [] then ''Unknown error'' else message e)]
               | Inr tabs \<Rightarrow>
                   [RefreshResp (length (filter (reloaded h) (filter validTab tabs))) (length tabs)]))"
proof (cases "getFaviconRefreshRunning h w = Inr True")
  case True
  then show ?thesis
    by (simp add: refreshAllSuspendedFaviconsBody_def handleAsyncMessage_def)
next
  case False
  then have f: "getFaviconRefreshRunning h w = Inr False"
    using getFaviconRefreshRunning_cases [of h w] by simp
  define w2 where "w2 = broadcastFaviconRefreshProgress h True (snd (setFaviconRefreshRunning h True w))"
  have t2: "trace w2 = trace w @ [StorageSet FAVICON_REFRESH_RUNNING True,
                  RuntimeSendMessage (MSG_FAVICON_REFRESH_PROGRESS h) None]"
    unfolding w2_def by (rule refreshStart_trace)
  show ?thesis
  proof (cases "tabs_query_suspended h")
    case (Inl e)
    then have body: "refreshAllSuspendedFaviconsBody h w = Some (Inl e, refreshFinally h w2)"
      by (simp add: refreshAllSuspendedFaviconsBody_def f Let_def w2_def)
    show ?thesis
      using refreshFinally_world [of h w2]
      by (simp add: body f Inl t2 handleAsyncMessage_def)
  next
    case (Inr tabs)
    define j where "j = runChunks h 1000 1200 (chunks 3 (filter validTab tabs))
               \<lparr> processed = 0, errors = 0, durationMs = 0, steps = [] \<rparr>"
    have run: "reloadSuspendedTabsBatched h tabs 3 1000 1200 = Some j"
      unfolding j_def by (rule reloadSuspendedTabsBatched_run) simp
    have sj: "steps j = batchSteps 1200 (chunks 3 (filter validTab tabs))"
      and pj: "processed j = length (filter (reloaded h) (filter validTab tabs))"
      using runChunks_counts [of h 1000 1200 "chunks 3 (filter validTab tabs)"]
      by (simp_all add: j_def concat_chunks)
    have body: "refreshAllSuspendedFaviconsBody h w
        = Some (Inr (RefreshResp (processed j) (length tabs)), refreshFinally h (recordReloads j w2))"
      by (simp add: refreshAllSuspendedFaviconsBody_def f Let_def w2_def Inr run)
    have tr: "trace (recordReloads j w2)
        = trace w2 @ map (\<lambda>t. TabsReload (tab_id t)) (filter validTab tabs)"
      by (simp add: recordReloads_def sj reloads_batchSteps concat_chunks)
    show ?thesis
      using refreshFinally_world [of h "recordReloads j w2"]
      by (simp add: body f Inr t2 tr pj handleAsyncMessage_def)
  qed
qed

theorem refreshAllSuspendedFavicons_paths_witness:
  "getFaviconRefreshRunning (flakyHost\<lparr> tabs_query_suspended := Inr sevenTabs \<rparr>) initial \<noteq> Inr True
   \<and> storage_set_error (flakyHost\<lparr> tabs_query_suspended := Inr sevenTabs \<rparr>)
        FAVICON_REFRESH_RUNNING False = None
   \<and> (\<exists>rw. refreshAllSuspendedFaviconsBody (flakyHost\<lparr> tabs_query_suspended := Inr sevenTabs \<rparr>) initial
              = Some rw
          \<and> fst (handleAsyncMessage rw) = [RefreshResp 6 7]
          \<and> storage (snd rw) FAVICON_REFRESH_RUNNING = Some False
          \<and> trace (snd rw)
              = [StorageSet FAVICON_REFRESH_RUNNING True,
                 RuntimeSendMessage ''MSG_faviconRefreshProgress'' None,
                 TabsReload (Some 1), TabsReload (Some 2), TabsReload (Some 3), TabsReload (Some 4),
                 TabsReload (Some 5), TabsReload (Some 6), TabsReload (Some 7),
                 StorageSet FAVICON_REFRESH_RUNNING False,
                 RuntimeSendMessage ''MSG_faviconRefreshDone'' None])"
proof -
  let ?h = "flakyHost\<lparr> tabs_query_suspended := Inr sevenTabs \<rparr>"
  have g: "getFaviconRefreshRunning ?h initial \<noteq> Inr True"
    by (simp add: getFaviconRefreshRunning_def chrome_storage_local_get_def initial_def
        flakyHost_def quietHost_def)
  have ok: "storage_set_error ?h FAVICON_REFRESH_RUNNING False = None"
    by (simp add: flakyHost_def quietHost_def)
  have v: "filter validTab sevenTabs = sevenTabs"
    by (simp add: sevenTabs_def validTab_def tabOfId_def)
  have q: "tabs_query_suspended ?h = Inr sevenTabs"
    by simp
  obtain rw where rw: "refreshAllSuspendedFaviconsBody ?h initial = Some rw"
    and tr: "trace (snd rw)
            = trace initial @ [StorageSet FAVICON_REFRESH_RUNNING True,
                         RuntimeSendMessage (MSG_FAVICON_REFRESH_PROGRESS ?h) None]
              @ (case tabs_query_suspended ?h of
                   Inl e \<Rightarrow> []
                 | Inr tabs \<Rightarrow> map (\<lambda>t. TabsReload (tab_id t)) (filter validTab tabs))
              @ [StorageSet FAVICON_REFRESH_RUNNING False,
                 RuntimeSendMessage (MSG_FAVICON_REFRESH_DONE ?h) None]"
    and st: "storage (snd rw) FAVICON_REFRESH_RUNNING = Some False"
    and rs: "fst (handleAsyncMessage rw)
            = (case tabs_query_suspended ?h of
                 Inl e \<Rightarrow> [ErrorResp (if message e = [] then ''Unknown error'' else message e)]
               | Inr tabs \<Rightarrow>
                   [RefreshResp (length (filter (reloaded ?h) (filter validTab tabs))) (length tabs)])"
    using refreshAllSuspendedFavicons_paths [of ?h initial] g ok by blast
  have "fst (handleAsyncMessage rw) = [RefreshResp 6 7]"
    unfolding rs q sum.case v
    by (simp add: sevenTabs_def tabOfId_def reloaded_def flakyHost_def)
  moreover have "trace (snd rw)
              = [StorageSet FAVICON_REFRESH_RUNNING True,
                 RuntimeSendMessage ''MSG_faviconRefreshProgress'' None,
                 TabsReload (Some 1), TabsReload (Some 2), TabsReload (Some 3), TabsReload (Some 4),
                 TabsReload (Some 5), TabsReload (Some 6), TabsReload (Some 7),
                 StorageSet FAVICON_REFRESH_RUNNING False,
                 RuntimeSendMessage ''MSG_faviconRefreshDone'' None]"
    unfolding tr q sum.case v
    by (simp add: sevenTabs_def tabOfId_def flakyHost_def quietHost_def initial_def)
  ultimately show ?thesis
    using g ok rw st by blast
qed

text \<open>
  As the specification words it, the property fails when the tab query rejects: the one
  response is
  \<^verbatim>\<open>{error: 'Tabs cannot be queried right now'}\<close>, which is neither
  \<^verbatim>\<open>{success, count, total}\<close> nor \<^verbatim>\<open>{success: false, error}\<close>.
\<close>

theorem refreshAllSuspendedFavicons_error_counterexample:
  "map_option (fst \<circ> snd)
     (handleMessage brokenQueryHost
        (Some (requestOf (Some ''MSG_refreshAllSuspendedFavicons''))) extensionSender initial)
     = Some [ErrorResp ''Tabs cannot be queried right now'']"
  by (simp add: handleMessage_def requestOf_def brokenQueryHost_def quietHost_def async_def
      handleAsyncMessage_def refreshAllSuspendedFaviconsBody_def getFaviconRefreshRunning_def
      chrome_storage_local_get_def initial_def Let_def)

text \<open>
  C9, as the code has it. A request whose type is a non-empty string outside the kinds the
  router knows gets the one response \<^verbatim>\<open>{error: 'Unknown message type'}\<close>, the listener
  returns \<^verbatim>\<open>false\<close> and nothing changes. A request with no type or with the empty string
  as type, and a \<^verbatim>\<open>null\<close> request, get \<^verbatim>\<open>{error: 'Invalid request'}\<close> instead.
\<close>

theorem unknown_message_type_response:
  "(req_type request = Some ty \<and> ty \<noteq> [] \<and> ty \<notin> recognized h \<longrightarrow>
      handleMessage h (Some request) sender w
        = Some (False, [ErrorResp ''Unknown message type''], w))
   \<and> (req_type request = None \<or> req_type request = Some [] \<longrightarrow>
      handleMessage h (Some request) sender w = Some (False, [ErrorResp ''Invalid request''], w))
   \<and> handleMessage h None sender w = Some (False, [ErrorResp ''Invalid request''], w)"
  by (auto simp: handleMessage_def recognized_def sync_def)

theorem unknown_message_type_response_witness:
  "req_type (requestOf (Some ''MSG_selfDestruct'')) = Some ''MSG_selfDestruct''
   \<and> ''MSG_selfDestruct'' \<noteq> []
   \<and> ''MSG_selfDestruct'' \<notin> recognized quietHost
   \<and> handleMessage quietHost (Some (requestOf (Some ''MSG_selfDestruct''))) contentScriptSender initial
       = Some (False, [ErrorResp ''Unknown message type''], initial)"
  using unknown_message_type_response [of "requestOf (Some ''MSG_selfDestruct'')"
      "''MSG_selfDestruct''" quietHost contentScriptSender initial]
  by (simp add: requestOf_def recognized_def quietHost_def)

text \<open>
  As the specification words it, the property fails for the empty type: it is outside the
  set of kinds, and the response is \<^verbatim>\<open>{error: 'Invalid request'}\<close>.
\<close>

theorem unknown_message_type_counterexample:
  "[] \<notin> recognized quietHost
   \<and> handleMessage quietHost (Some (requestOf (Some []))) extensionSender initial
       = Some (False, [ErrorResp ''Invalid request''], initial)
   \<and> handleMessage quietHost (Some (requestOf (Some []))) extensionSender initial
       \<noteq> Some (False, [ErrorResp ''Unknown message type''], initial)"
  by (simp add: handleMessage_def requestOf_def recognized_def quietHost_def sync_def)

text \<open>
  The kinds whose case in the \<^verbatim>\<open>switch\<close> begins with the sender check: a sender that
  is not a page of the extension gets \<^verbatim>\<open>{error: 'Permission denied'}\<close> and nothing
  changes. (The kind must not also be the status query or the single-tab suspend, which
  come first in the router.)
\<close>

lemma validated_kinds_denied:
  assumes "req_type request = Some ty" "ty \<noteq> []" "ty \<noteq> ''IS_BULK_OP_RUNNING''"
    "ty \<noteq> MSG_SUSPEND_TAB h" "ty \<in> validatedKinds h" "\<not> validateMessageSender h sender True"
  shows "handleMessage h (Some request) sender w = Some (False, [ErrorResp ''Permission denied''], w)"
  using assms by (auto simp: handleMessage_def validatedKinds_def permissionDenied_def sync_def)

text \<open>
  The kinds of the tools page are handled in the \<^verbatim>\<open>default\<close> branch, which has no
  sender check: the outcome does not depend on the sender at all.
\<close>

lemma tools_kinds_ignore_sender:
  assumes "req_type request = Some ty" "ty \<noteq> []" "ty \<noteq> ''IS_BULK_OP_RUNNING''"
    "ty \<noteq> MSG_SUSPEND_TAB h" "ty \<notin> validatedKinds h" "ty \<in> toolsKinds h"
  shows "handleMessage h (Some request) sender w = handleMessage h (Some request) sender' w"
  using assms by (auto simp: handleMessage_def validatedKinds_def toolsKinds_def)

text \<open>
  C2 at a failing input. A content script of a web page, which the sender check rejects,
  sends the reset of the bulk-operation flag while a bulk operation is marked as running:
  the response is \<^verbatim>\<open>{success: true}\<close>, the flag is written false and the watchdog is
  cancelled. The same sender clears the favicon cache, starts a favicon refresh and reads
  the statistics and the skipped tabs.
\<close>

theorem tools_kinds_not_validated:
  "\<not> validateMessageSender quietHost contentScriptSender True
   \<and> storage armedWorld BULK_RUNNING = Some True
   \<and> map_option (fst \<circ> snd)
       (handleMessage quietHost (Some (requestOf (Some ''MSG_resetBulkOpRunning'')))
          contentScriptSender armedWorld) = Some [SuccessResp True]
   \<and> map_option (\<lambda>out. storage (snd (snd out)) BULK_RUNNING)
       (handleMessage quietHost (Some (requestOf (Some ''MSG_resetBulkOpRunning'')))
          contentScriptSender armedWorld) = Some (Some False)
   \<and> map_option (\<lambda>out. timers (snd (snd out)))
       (handleMessage quietHost (Some (requestOf (Some ''MSG_resetBulkOpRunning'')))
          contentScriptSender armedWorld) = Some []
   \<and> map_option (\<lambda>out. (fst (snd out), trace (snd (snd out))))
       (handleMessage quietHost (Some (requestOf (Some ''MSG_clearFaviconCache'')))
          contentScriptSender initial) = Some ([SuccessResp True], [StorageClearFaviconCache])
   \<and> map_option (fst \<circ> snd)
       (handleMessage quietHost (Some (requestOf (Some ''MSG_refreshAllSuspendedFavicons'')))
          contentScriptSender initial) = Some [RefreshResp 0 0]
   \<and> map_option (fst \<circ> snd)
       (handleMessage quietHost (Some (requestOf (Some ''MSG_getExtensionStats'')))
          contentScriptSender initial) = Some [StatsResp 0 0 0 0]
   \<and> map_option (fst \<circ> snd)
       (handleMessage quietHost (Some (requestOf (Some ''MSG_getSkippedTabs'')))
          contentScriptSender initial) = Some [SkippedTabsResp []]"
proof -
  have v: "\<not> validateMessageSender quietHost contentScriptSender True"
    by (simp add: validateMessageSender_def contentScriptSender_def quietHost_def startsWith_def)
  have a: "storage armedWorld BULK_RUNNING = Some True
      \<and> timers armedWorld = [(1, BULK_OP_TIMEOUT_MS)] \<and> bulkOpTimeoutId armedWorld = Some 1"
    by (simp add: armedWorld_def quietHost_def initial_def setBulkOpRunning_def setTimeout_def
        chrome_storage_local_set_def emit_def Let_def timeoutOf_def BULK_OP_TIMEOUT_MS_def)
  have b: "resetBulkOpRunningBody quietHost armedWorld
      = (Inr (SuccessResp True), snd (setBulkOpRunning quietHost False armedWorld))"
    by (auto simp: resetBulkOpRunningBody_def setBulkOpRunning_def Let_def
        split: option.splits sum.splits prod.splits)
  have "handleMessage quietHost (Some (requestOf (Some ''MSG_resetBulkOpRunning'')))
          contentScriptSender armedWorld = async (resetBulkOpRunningBody quietHost armedWorld)"
    by (simp add: handleMessage_def requestOf_def quietHost_def)
  then have reset: "handleMessage quietHost (Some (requestOf (Some ''MSG_resetBulkOpRunning'')))
          contentScriptSender armedWorld
      = Some (True, [SuccessResp True], snd (setBulkOpRunning quietHost False armedWorld))"
    by (simp add: b async_def handleAsyncMessage_def)
  have after: "storage (snd (setBulkOpRunning quietHost False armedWorld)) BULK_RUNNING = Some False
      \<and> timers (snd (setBulkOpRunning quietHost False armedWorld)) = []"
    using a
    by (simp add: quietHost_def setBulkOpRunning_def clearTimeout_def
        chrome_storage_local_set_def emit_def Let_def)
  have "handleMessage quietHost (Some (requestOf (Some ''MSG_clearFaviconCache'')))
          contentScriptSender initial = async (clearFaviconCacheBody quietHost initial)"
    by (simp add: handleMessage_def requestOf_def quietHost_def)
  then have clear: "handleMessage quietHost (Some (requestOf (Some ''MSG_clearFaviconCache'')))
          contentScriptSender initial
      = Some (True, [SuccessResp True], emit StorageClearFaviconCache initial)"
    by (simp add: async_def handleAsyncMessage_def clearFaviconCacheBody_def attempt_def quietHost_def)
  have r: "reloadSuspendedTabsBatched quietHost [] 3 1000 1200
      = Some \<lparr> processed = 0, errors = 0, durationMs = 0, steps = [] \<rparr>"
    using reloadSuspendedTabsBatched_run [of 3 quietHost "[]" 1000 1200] by simp
  have q: "tabs_query_suspended quietHost = Inr []"
    by (simp add: quietHost_def)
  have g: "getFaviconRefreshRunning quietHost initial = Inr False"
    by (simp add: getFaviconRefreshRunning_def chrome_storage_local_get_def quietHost_def initial_def)
  have body: "map_option fst (refreshAllSuspendedFaviconsBody quietHost initial)
      = Some (Inr (RefreshResp 0 0))"
    by (simp add: refreshAllSuspendedFaviconsBody_def g q r Let_def)
  have "handleMessage quietHost (Some (requestOf (Some ''MSG_refreshAllSuspendedFavicons'')))
          contentScriptSender initial
      = (case refreshAllSuspendedFaviconsBody quietHost initial of
           None \<Rightarrow> None
         | Some rw \<Rightarrow> async rw)"
    by (simp add: handleMessage_def requestOf_def quietHost_def)
  then have refresh: "map_option (fst \<circ> snd)
       (handleMessage quietHost (Some (requestOf (Some ''MSG_refreshAllSuspendedFavicons'')))
          contentScriptSender initial) = Some [RefreshResp 0 0]"
    using body
    by (auto simp: async_def handleAsyncMessage_def split: option.splits sum.splits)
  have "handleMessage quietHost (Some (requestOf (Some ''MSG_getExtensionStats'')))
          contentScriptSender initial = async (getExtensionStatsBody quietHost initial)"
    by (simp add: handleMessage_def requestOf_def quietHost_def)
  then have stats: "handleMessage quietHost (Some (requestOf (Some ''MSG_getExtensionStats'')))
          contentScriptSender initial = Some (True, [StatsResp 0 0 0 0], initial)"
    by (simp add: async_def handleAsyncMessage_def getExtensionStatsBody_def quietHost_def)
  have "handleMessage quietHost (Some (requestOf (Some ''MSG_getSkippedTabs'')))
          contentScriptSender initial = async (getSkippedTabsBody quietHost initial)"
    by (simp add: handleMessage_def requestOf_def quietHost_def)
  then have skipped: "handleMessage quietHost (Some (requestOf (Some ''MSG_getSkippedTabs'')))
          contentScriptSender initial = Some (True, [SkippedTabsResp []], initial)"
    by (simp add: async_def handleAsyncMessage_def getSkippedTabsBody_def quietHost_def)
  have tr: "trace (emit StorageClearFaviconCache initial) = [StorageClearFaviconCache]"
    by (simp add: emit_def initial_def)
  show ?thesis
    unfolding reset clear stats skipped refresh
    using v a after tr by simp
qed

section \<open>Properties of the tab-removed handler\<close>

text \<open>
  What \<^verbatim>\<open>handleTabRemoved\<close> does in general: the pending-suspension bookkeeping of the
  tab is purged whatever the event says, and this is the only outward call; when the tab
  was the tracked active tab of a window that is not closing and the host finds an active
  tab there, that tab becomes the tracked one; when the host finds none, the Map is left
  as it was.
\<close>

lemma handleTabRemoved_purges:
  "trace (handleTabRemoved h tabId windowId isWindowClosing w) = trace w @ [RemoveTabSuspendTime tabId]"
  by (simp add: handleTabRemoved_def Let_def emit_def setActiveTabForWindow_def
      split: sum.splits list.splits)

lemma handleTabRemoved_requeries:
  assumes "\<not> isWindowClosing" "getActiveTabForWindow windowId w = Some tabId"
    "tabs_query_active h windowId = Inr (t # rest)"
  shows "getActiveTabForWindow windowId (handleTabRemoved h tabId windowId isWindowClosing w) = Some t"
  using assms
  by (simp add: handleTabRemoved_def Let_def emit_def setActiveTabForWindow_def
      getActiveTabForWindow_def Map_get_set)

lemma handleTabRemoved_none_found:
  assumes "tabs_query_active h windowId = Inr []"
  shows "activeTabsByWindow (handleTabRemoved h tabId windowId isWindowClosing w) = activeTabsByWindow w"
  using assms by (simp add: handleTabRemoved_def Let_def emit_def)

text \<open>
  C3 at a failing input. Window 1 tracks tab 10 as its active tab; tab 10 is removed, the
  window is not closing, and the host finds no active tab in window 1. The entry of
  window 1 is still there afterwards, with the removed tab.
\<close>

theorem handleTabRemoved_leaves_stale_entry:
  "getActiveTabForWindow 1 trackedWorld = Some 10
   \<and> tabs_query_active quietHost 1 = Inr []
   \<and> getActiveTabForWindow 1 (handleTabRemoved quietHost 10 1 False trackedWorld) = Some 10
   \<and> Map_has 1 (activeTabsByWindow (handleTabRemoved quietHost 10 1 False trackedWorld))"
  by (simp add: handleTabRemoved_def Let_def emit_def trackedWorld_def initial_def quietHost_def
      getActiveTabForWindow_def Map_get_def Map_has_def)

end
